theory Spec2Isabelle
  imports Complex_Main "HOL-Library.Word"
begin

unbundle bit_operations_syntax

section \<open>Strings\<close>

text \<open>
  Go strings are byte sequences and so are HOL strings.  The helpers below follow the
  functions of package \<^verbatim>\<open>strings\<close> that the engine calls, on the ASCII range: letters
  outside it are left alone by \<open>ToLower\<close> and count as separators for \<open>Title\<close>.
\<close>

definition lowerChar :: "char \<Rightarrow> char" where
  "lowerChar c =
     (let n = (of_char c :: nat)
      in if 65 \<le> n \<and> n \<le> 90 then ''abcdefghijklmnopqrstuvwxyz'' ! (n - 65) else c)"

definition upperChar :: "char \<Rightarrow> char" where
  "upperChar c =
     (let n = (of_char c :: nat)
      in if 97 \<le> n \<and> n \<le> 122 then ''ABCDEFGHIJKLMNOPQRSTUVWXYZ'' ! (n - 97) else c)"

definition ToLower :: "string \<Rightarrow> string" where
  "ToLower s = map lowerChar s"

fun HasPrefix :: "string \<Rightarrow> string \<Rightarrow> bool" where
  "HasPrefix s [] = True"
| "HasPrefix [] (p # ps) = False"
| "HasPrefix (c # cs) (p # ps) = (c = p \<and> HasPrefix cs ps)"

fun Contains :: "string \<Rightarrow> string \<Rightarrow> bool" where
  "Contains [] substr = (substr = [])"
| "Contains (c # cs) substr = (HasPrefix (c # cs) substr \<or> Contains cs substr)"

definition isSpace :: "char \<Rightarrow> bool" where
  "isSpace c = (let n = (of_char c :: nat) in n = 32 \<or> (9 \<le> n \<and> n \<le> 13))"

fun fieldsFrom :: "string \<Rightarrow> string \<Rightarrow> string list" where
  "fieldsFrom cur [] = (if cur = [] then [] else [cur])"
| "fieldsFrom cur (c # cs) =
     (if isSpace c then (if cur = [] then fieldsFrom [] cs else cur # fieldsFrom [] cs)
      else fieldsFrom (cur @ [c]) cs)"

definition Fields :: "string \<Rightarrow> string list" where
  "Fields s = fieldsFrom [] s"

definition isSeparator :: "char \<Rightarrow> bool" where
  "isSeparator c =
     (let n = (of_char c :: nat) in
      \<not> ((48 \<le> n \<and> n \<le> 57) \<or> (65 \<le> n \<and> n \<le> 90) \<or> (97 \<le> n \<and> n \<le> 122) \<or> n = 95))"

fun titleFrom :: "char \<Rightarrow> string \<Rightarrow> string" where
  "titleFrom prev [] = []"
| "titleFrom prev (c # cs) = (if isSeparator prev then upperChar c else c) # titleFrom c cs"

definition Title :: "string \<Rightarrow> string" where
  "Title s = titleFrom (CHR '' '') s"

fun Join :: "string list \<Rightarrow> string \<Rightarrow> string" where
  "Join [] sep = []"
| "Join [x] sep = x"
| "Join (x # y # ys) sep = x @ sep @ Join (y # ys) sep"

section \<open>Models (package models)\<close>

record CollisionInput =
  UserInterests :: "string list"
  CurrentProject :: string
  ProjectType :: string
  CollisionIntensity :: string

record CollisionDomain =
  dom_ID :: string
  Name :: string
  Category :: string
  Description :: string
  Examples :: "string list"
  Keywords :: "string list"
  Intensity :: "string list"
  Tier :: string
  dom_CreatedAt :: int
  dom_UpdatedAt :: int

record CollisionResult =
  res_ID :: string
  PrimaryDomain :: string
  CollisionDomainName :: string
  Connection :: string
  SparkQuestions :: "string list"
  res_Examples :: "string list"
  NextSteps :: "string list"
  QualityScore :: real
  Timestamp :: int
  Rating :: "int option"
  Notes :: "string option"

text \<open>The zero value of \<^verbatim>\<open>models.CollisionDomain\<close>: what a composite literal leaves unset.\<close>

definition zeroDomain :: CollisionDomain where
  "zeroDomain = \<lparr>dom_ID = [], Name = [], Category = [], Description = [], Examples = [],
     Keywords = [], Intensity = [], Tier = [], dom_CreatedAt = 0, dom_UpdatedAt = 0\<rparr>"

section \<open>The collision engine (package collision)\<close>

text \<open>
  \<^verbatim>\<open>float64\<close> scores are modelled by real numbers.  The engine's sources of
  nondeterminism are inputs of the model: the two \<^verbatim>\<open>rand.Float64()\<close> draws (each in
  \<open>[0, 1)\<close>), the \<^verbatim>\<open>rand.Intn\<close> draw, the fresh UUID and the clock.
\<close>

record CollisionEngine =
  Domains :: "CollisionDomain list"

record DomainMatch =
  Domain :: CollisionDomain
  RelevanceScore :: real
  NoveltyScore :: real
  OverallScore :: real
  Reasoning :: string

record Entropy =
  randSelect :: real
  randNoise :: real
  randKeyword :: nat
  newUUID :: string
  timeNow :: int

definition NewCollisionEngine :: "CollisionDomain list \<Rightarrow> CollisionEngine" where
  "NewCollisionEngine domains = \<lparr>Domains = domains\<rparr>"

text \<open>The body of the loop over the interests: the score of one interest before the cap.\<close>

definition interestDomainScore :: "string \<Rightarrow> CollisionDomain \<Rightarrow> real" where
  "interestDomainScore interest domain =
     (let interestLower = ToLower interest;
          s1 = (if Contains (ToLower (Name domain)) interestLower then 3 else 0);
          s2 = (if Contains (ToLower (Category domain)) interestLower then s1 + 2 else s1);
          s3 = foldl (\<lambda>s keyword.
                 if Contains (ToLower keyword) interestLower \<or> Contains interestLower (ToLower keyword)
                 then s + 1 else s) s2 (Keywords domain)
      in if Contains (ToLower (Description domain)) interestLower then s3 + 0.5 else s3)"

definition calculateInterestRelevance :: "string list \<Rightarrow> CollisionDomain \<Rightarrow> real" where
  "calculateInterestRelevance interests domain =
     (if length interests = 0 then 0
      else let (score, totalPossible) =
                 foldl (\<lambda>(score, totalPossible) interest.
                          (score + min (interestDomainScore interest domain) 3, totalPossible + 3))
                       (0, 0) interests
           in score / totalPossible)"

definition relevanceMap :: "string \<Rightarrow> string list option" where
  "relevanceMap k =
     (if k = ''product'' then Some [''design'', ''technology'', ''science'', ''crafts'']
      else if k = ''content'' then Some [''arts'', ''media'', ''cultural'', ''entertainment'']
      else if k = ''business'' then Some [''social systems'', ''economics'', ''human systems'']
      else if k = ''research'' then Some [''science'', ''mathematics'', ''philosophy'']
      else None)"

definition calculateDomainRelevance :: "CollisionInput \<Rightarrow> CollisionDomain \<Rightarrow> real" where
  "calculateDomainRelevance input domain =
     (let projectLower = ToLower (CurrentProject input);
          projectTypeLower = ToLower (ProjectType input);
          categoryLower = ToLower (Category domain);
          s1 = (case relevanceMap projectTypeLower of
                  None \<Rightarrow> 0
                | Some categories \<Rightarrow>
                    if list_ex (\<lambda>cat. Contains categoryLower cat) categories then 0.3 else 0);
          s2 = foldl (\<lambda>s keyword. if Contains projectLower (ToLower keyword) then s + 0.2 else s)
                 s1 (Keywords domain);
          s3 = foldl (\<lambda>s example.
                 if list_ex (\<lambda>word. length word > 3 \<and> Contains (ToLower example) word)
                      (Fields projectLower)
                 then s + 0.1 else s) s2 (Examples domain)
      in min s3 1)"

definition unexpectedCategories :: "string list" where
  "unexpectedCategories = [''quantum'', ''chaos'', ''mythology'', ''ancient'', ''radical'']"

definition calculateNoveltyScore :: "string list \<Rightarrow> CollisionDomain \<Rightarrow> real" where
  "calculateNoveltyScore interests domain =
     (let relevance = calculateInterestRelevance interests domain;
          novelty = max 0.2 (1 - relevance);
          categoryLower = ToLower (Category domain @ '' '' @ Name domain @ '' '' @ Description domain);
          novelty' = (if list_ex (\<lambda>unexpected. Contains categoryLower unexpected) unexpectedCategories
                      then novelty * 1.2 else novelty)
      in min novelty' 1)"

text \<open>The weight table of \<^verbatim>\<open>calculateAntiEchoChamberScore\<close>: (relevance, novelty).\<close>

definition antiEchoWeights :: "string \<Rightarrow> (real \<times> real) option" where
  "antiEchoWeights k =
     (if k = ''gentle'' then Some (0.6, 0.4)
      else if k = ''moderate'' then Some (0.4, 0.6)
      else if k = ''radical'' then Some (0.2, 0.8)
      else None)"

text \<open>A Go map lookup of a missing key gives the zero value.\<close>

definition intensityWeight :: "string \<Rightarrow> real \<times> real" where
  "intensityWeight intensity =
     (case antiEchoWeights intensity of
        Some w \<Rightarrow> w
      | None \<Rightarrow> (case antiEchoWeights ''moderate'' of Some w \<Rightarrow> w | None \<Rightarrow> (0, 0)))"

definition calculateAntiEchoChamberScore :: "real \<Rightarrow> real \<Rightarrow> string \<Rightarrow> real" where
  "calculateAntiEchoChamberScore relevance novelty intensity =
     (let weight = intensityWeight intensity
      in relevance * fst weight + novelty * snd weight)"

definition complexityIndicators :: "string list" where
  "complexityIndicators =
     [''system'', ''platform'', ''algorithm'', ''network'', ''framework'',
      ''architecture'', ''optimization'', ''intelligence'', ''automation'',
      ''integration'', ''scalable'', ''distributed'', ''analytics'']"

definition assessProjectComplexity :: "string \<Rightarrow> real" where
  "assessProjectComplexity project =
     (let projectLower = ToLower project;
          matches = length (filter (\<lambda>indicator. Contains projectLower indicator) complexityIndicators)
      in min 1 (real matches / 5))"

definition assessDomainDepth :: "CollisionDomain \<Rightarrow> real" where
  "assessDomainDepth domain =
     (let s1 = min 0.3 (real (length (Keywords domain)) / 10);
          s2 = s1 + min 0.3 (real (length (Examples domain)) / 5);
          s3 = s2 + min 0.2 (real (length (Description domain)) / 200);
          s4 = (if Tier domain = ''premium'' then s3 + 0.2 else s3)
      in min 1 s4)"

text \<open>\<open>noise\<close> is the value of \<^verbatim>\<open>rand.Float64()\<close>.\<close>

definition calculateQualityScore :: "CollisionInput \<Rightarrow> CollisionDomain \<Rightarrow> real \<Rightarrow> real" where
  "calculateQualityScore input domain noise =
     (let relevance = calculateDomainRelevance input domain;
          novelty = calculateNoveltyScore (UserInterests input) domain;
          projectComplexity = assessProjectComplexity (CurrentProject input);
          domainDepth = assessDomainDepth domain;
          score = (relevance * 0.3 + novelty * 0.3 + projectComplexity * 0.2 + domainDepth * 0.2) * 100;
          score' = score + (noise - 0.5) * 5
      in max 0 (min 100 score'))"

definition isIntensityCompatible :: "CollisionDomain \<Rightarrow> string \<Rightarrow> bool" where
  "isIntensityCompatible domain intensity =
     list_ex (\<lambda>supportedIntensity. supportedIntensity = intensity) (Intensity domain)"

definition selectPrimaryDomain :: "CollisionEngine \<Rightarrow> string list \<Rightarrow> string" where
  "selectPrimaryDomain e interests =
     (if length interests = 0 then ''General Innovation''
      else let (bestMatch, highestScore) =
                 foldl (\<lambda>(bestMatch, highestScore) domain.
                          let score = calculateInterestRelevance interests domain
                          in if score > highestScore then (Name domain, score)
                             else (bestMatch, highestScore))
                       ([], 0) (Domains e)
           in if bestMatch = [] then Title (interests ! 0) else bestMatch)"

definition filterCandidateDomains ::
  "CollisionEngine \<Rightarrow> CollisionInput \<Rightarrow> string \<Rightarrow> CollisionDomain list" where
  "filterCandidateDomains e input primaryDomain =
     filter (\<lambda>domain. \<not> (Name domain = primaryDomain) \<and>
                      isIntensityCompatible domain (CollisionIntensity input))
            (Domains e)"

definition generateReasoningSnippet ::
  "string \<Rightarrow> CollisionDomain \<Rightarrow> real \<Rightarrow> real \<Rightarrow> string" where
  "generateReasoningSnippet project domain relevance novelty =
     (if novelty > 0.7 then
        ''Exploring '' @ Name domain @ '' offers an unexpected lens for '' @ project @
        '', challenging conventional approaches through '' @ ToLower (Category domain) @
        '' principles.''
      else if relevance > 0.6 then
        ''The principles of '' @ Name domain @ '' can directly enhance '' @ project @
        '' by applying '' @ ToLower (Category domain) @ '' methodologies.''
      else
        ''Drawing from '' @ Name domain @ '' creates novel opportunities for '' @ project @
        '' through cross-disciplinary insight.'')"

definition fallbackMatch :: DomainMatch where
  "fallbackMatch =
     \<lparr>Domain = zeroDomain\<lparr>Name := ''Innovation'', Category := ''General'',
                             Description := ''General innovative thinking''\<rparr>,
      RelevanceScore = 0, NoveltyScore = 0, OverallScore = 0,
      Reasoning = ''Fallback domain for creative exploration''\<rparr>"

definition poolSizes :: "string \<Rightarrow> nat option" where
  "poolSizes k =
     (if k = ''gentle'' then Some 3
      else if k = ''moderate'' then Some 5
      else if k = ''radical'' then Some 8
      else None)"

text \<open>
  The selection loop: the index of the first weight at which the running sum reaches the
  target, if there is one.
\<close>

fun scanWeights :: "real list \<Rightarrow> real \<Rightarrow> real \<Rightarrow> nat \<Rightarrow> nat option" where
  "scanWeights [] target cumulative i = None"
| "scanWeights (w # ws) target cumulative i =
     (if cumulative + w \<ge> target then Some i
      else scanWeights ws target (cumulative + w) (i + 1))"

text \<open>\<open>r\<close> is the value of \<^verbatim>\<open>rand.Float64()\<close>.\<close>

definition selectWithRandomness :: "DomainMatch list \<Rightarrow> string \<Rightarrow> real \<Rightarrow> DomainMatch" where
  "selectWithRandomness matches intensity r =
     (if length matches = 0 then fallbackMatch
      else let poolSize0 = (case poolSizes intensity of
                              Some sz \<Rightarrow> sz
                            | None \<Rightarrow> (case poolSizes ''moderate'' of Some sz \<Rightarrow> sz | None \<Rightarrow> 0));
               poolSize = (if poolSize0 > length matches then length matches else poolSize0);
               ws = map (\<lambda>i. exp (- real i * 0.5)) [0..<poolSize];
               totalWeight = foldl (+) 0 ws;
               target = r * totalWeight
           in case scanWeights ws target 0 0 of
                Some i \<Rightarrow> matches ! i
              | None \<Rightarrow> matches ! 0)"

text \<open>
  \<^verbatim>\<open>sort.Slice\<close> with \<^verbatim>\<open>OverallScore\<close> descending.  The library sort does not promise
  an order among equal scores; the model takes the insertion sort's.
\<close>

definition sortMatches :: "DomainMatch list \<Rightarrow> DomainMatch list" where
  "sortMatches matches = sort_key (\<lambda>m. - OverallScore m) matches"

definition scoreCandidate :: "CollisionInput \<Rightarrow> CollisionDomain \<Rightarrow> DomainMatch" where
  "scoreCandidate input domain =
     (let relevance = calculateDomainRelevance input domain;
          novelty = calculateNoveltyScore (UserInterests input) domain;
          overall = calculateAntiEchoChamberScore relevance novelty (CollisionIntensity input);
          reasoning = generateReasoningSnippet (CurrentProject input) domain relevance novelty
      in \<lparr>Domain = domain, RelevanceScore = relevance, NoveltyScore = novelty,
          OverallScore = overall, Reasoning = reasoning\<rparr>)"

definition selectCollisionDomain ::
  "CollisionEngine \<Rightarrow> CollisionInput \<Rightarrow> string \<Rightarrow> real \<Rightarrow> CollisionDomain \<times> string" where
  "selectCollisionDomain e input primaryDomain r =
     (let candidates = filterCandidateDomains e input primaryDomain;
          matches = map (scoreCandidate input) candidates;
          selected = selectWithRandomness (sortMatches matches) (CollisionIntensity input) r
      in (Domain selected, Reasoning selected))"

subsection \<open>Enrichment\<close>

text \<open>\<open>k\<close> stands for the \<^verbatim>\<open>rand.Intn\<close> draw, reduced to the range asked for.\<close>

definition generateSparkQuestions :: "CollisionInput \<Rightarrow> CollisionDomain \<Rightarrow> nat \<Rightarrow> string list" where
  "generateSparkQuestions input domain k =
     (let questions =
            [''How might '' @ ToLower (Name domain) @ '' principles reshape your approach to '' @
               CurrentProject input @ ''?'',
             ''What would '' @ CurrentProject input @ '' look like if designed using '' @
               Category domain @ '' patterns?'',
             ''Which aspects of '' @ Name domain @
               '' could introduce unexpected benefits to your '' @ ProjectType input @ '' project?'']
      in if length (Keywords domain) > 0
         then questions @
              [''How could the concept of '' @ [CHR 0x27] @
               Keywords domain ! (k mod length (Keywords domain)) @ [CHR 0x27] @
               '' unlock new possibilities in your work?'']
         else questions)"

definition contextualizeExample :: "string \<Rightarrow> CollisionInput \<Rightarrow> string" where
  "contextualizeExample example input =
     (let exampleLower = ToLower example
      in if Contains exampleLower ''system'' then ''could inspire new system architectures''
         else if Contains exampleLower ''pattern'' then ''might reveal new design patterns''
         else if Contains exampleLower ''flow'' then ''could optimize process flows''
         else ''offers fresh perspective on implementation'')"

text \<open>The arrow of the format string is the three bytes of U+2192.\<close>

definition adaptExamples :: "CollisionInput \<Rightarrow> CollisionDomain \<Rightarrow> string list" where
  "adaptExamples input domain =
     map (\<lambda>example. example @ '' '' @ [CHR 0xE2, CHR 0x86, CHR 0x92] @ '' Applied to '' @
                     ProjectType input @ '': '' @ contextualizeExample example input)
         (Examples domain)"

definition generateNextSteps :: "CollisionInput \<Rightarrow> CollisionDomain \<Rightarrow> string list" where
  "generateNextSteps input domain =
     (let steps =
            [''Research core '' @ Name domain @ '' principles and identify 3 that could apply to '' @
               CurrentProject input,
             ''Find experts or resources in '' @ Name domain @ '' to deepen understanding'',
             ''Prototype one small aspect of '' @ CurrentProject input @ '' using '' @ Name domain @
               ''-inspired approaches'',
             ''Document insights and unexpected connections discovered'']
      in if CollisionIntensity input = ''radical''
         then steps @ [''Challenge fundamental assumptions about '' @ ProjectType input @
                       '' using '' @ Name domain @ '' perspective'']
         else steps)"

definition enrichCollisionResult ::
  "CollisionResult \<Rightarrow> CollisionInput \<Rightarrow> CollisionDomain \<Rightarrow> nat \<Rightarrow> CollisionResult" where
  "enrichCollisionResult result input domain k =
     result\<lparr>SparkQuestions := generateSparkQuestions input domain k,
            res_Examples := adaptExamples input domain,
            NextSteps := generateNextSteps input domain\<rparr>"

subsection \<open>SHA-256 (crypto/sha256), after FIPS 180-4\<close>

definition rotr :: "nat \<Rightarrow> 32 word \<Rightarrow> 32 word" where
  "rotr n x = drop_bit n x OR push_bit (32 - n) x"

definition Ch :: "32 word \<Rightarrow> 32 word \<Rightarrow> 32 word \<Rightarrow> 32 word" where
  "Ch x y z = (x AND y) XOR (NOT x AND z)"

definition Maj :: "32 word \<Rightarrow> 32 word \<Rightarrow> 32 word \<Rightarrow> 32 word" where
  "Maj x y z = (x AND y) XOR (x AND z) XOR (y AND z)"

definition bigSigma0 :: "32 word \<Rightarrow> 32 word" where
  "bigSigma0 x = rotr 2 x XOR rotr 13 x XOR rotr 22 x"

definition bigSigma1 :: "32 word \<Rightarrow> 32 word" where
  "bigSigma1 x = rotr 6 x XOR rotr 11 x XOR rotr 25 x"

definition smallSigma0 :: "32 word \<Rightarrow> 32 word" where
  "smallSigma0 x = rotr 7 x XOR rotr 18 x XOR drop_bit 3 x"

definition smallSigma1 :: "32 word \<Rightarrow> 32 word" where
  "smallSigma1 x = rotr 17 x XOR rotr 19 x XOR drop_bit 10 x"

definition sha256K :: "32 word list" where
  "sha256K =
   [0x428A2F98, 0x71374491, 0xB5C0FBCF, 0xE9B5DBA5, 0x3956C25B, 0x59F111F1, 0x923F82A4, 0xAB1C5ED5,
    0xD807AA98, 0x12835B01, 0x243185BE, 0x550C7DC3, 0x72BE5D74, 0x80DEB1FE, 0x9BDC06A7, 0xC19BF174,
    0xE49B69C1, 0xEFBE4786, 0x0FC19DC6, 0x240CA1CC, 0x2DE92C6F, 0x4A7484AA, 0x5CB0A9DC, 0x76F988DA,
    0x983E5152, 0xA831C66D, 0xB00327C8, 0xBF597FC7, 0xC6E00BF3, 0xD5A79147, 0x06CA6351, 0x14292967,
    0x27B70A85, 0x2E1B2138, 0x4D2C6DFC, 0x53380D13, 0x650A7354, 0x766A0ABB, 0x81C2C92E, 0x92722C85,
    0xA2BFE8A1, 0xA81A664B, 0xC24B8B70, 0xC76C51A3, 0xD192E819, 0xD6990624, 0xF40E3585, 0x106AA070,
    0x19A4C116, 0x1E376C08, 0x2748774C, 0x34B0BCB5, 0x391C0CB3, 0x4ED8AA4A, 0x5B9CCA4F, 0x682E6FF3,
    0x748F82EE, 0x78A5636F, 0x84C87814, 0x8CC70208, 0x90BEFFFA, 0xA4506CEB, 0xBEF9A3F7, 0xC67178F2]"

type_synonym sha256State =
  "32 word \<times> 32 word \<times> 32 word \<times> 32 word \<times> 32 word \<times> 32 word \<times> 32 word \<times> 32 word"

definition sha256Init :: sha256State where
  "sha256Init = (0x6A09E667, 0xBB67AE85, 0x3C6EF372, 0xA54FF53A,
                 0x510E527F, 0x9B05688C, 0x1F83D9AB, 0x5BE0CD19)"

definition beWord :: "nat list \<Rightarrow> 32 word" where
  "beWord bs = of_nat (foldl (\<lambda>acc b. acc * 256 + b) 0 bs)"

fun chunks :: "nat \<Rightarrow> nat \<Rightarrow> 'a list \<Rightarrow> 'a list list" where
  "chunks 0 n xs = []"
| "chunks (Suc k) n xs = take n xs # chunks k n (drop n xs)"

fun extendSchedule :: "nat \<Rightarrow> 32 word list \<Rightarrow> 32 word list" where
  "extendSchedule 0 w = w"
| "extendSchedule (Suc k) w =
     (let t = length w
      in extendSchedule k
           (w @ [smallSigma1 (w ! (t - 2)) + w ! (t - 7) + smallSigma0 (w ! (t - 15)) + w ! (t - 16)]))"

definition sha256Round :: "sha256State \<Rightarrow> 32 word \<times> 32 word \<Rightarrow> sha256State" where
  "sha256Round s kw =
     (case s of (a, b, c, d, e, f, g, h) \<Rightarrow>
        let t1 = h + bigSigma1 e + Ch e f g + fst kw + snd kw;
            t2 = bigSigma0 a + Maj a b c
        in (t1 + t2, a, b, c, d + t1, e, f, g))"

definition sha256Block :: "sha256State \<Rightarrow> nat list \<Rightarrow> sha256State" where
  "sha256Block s block =
     (let w = extendSchedule 48 (map beWord (chunks 16 4 block))
      in case (s, foldl sha256Round s (zip sha256K w)) of
           ((a, b, c, d, e, f, g, h), (a', b', c', d', e', f', g', h')) \<Rightarrow>
             (a + a', b + b', c + c', d + d', e + e', f + f', g + g', h + h'))"

definition beBytes :: "nat \<Rightarrow> nat \<Rightarrow> nat list" where
  "beBytes k n = map (\<lambda>i. (n div 256 ^ (k - 1 - i)) mod 256) [0..<k]"

definition sha256Pad :: "nat list \<Rightarrow> nat list" where
  "sha256Pad msg =
     msg @ [128] @ replicate ((119 - length msg mod 64) mod 64) 0 @ beBytes 8 (8 * length msg)"

definition Sum256 :: "nat list \<Rightarrow> nat list" where
  "Sum256 msg =
     (let padded = sha256Pad msg
      in case foldl sha256Block sha256Init (chunks (length padded div 64) 64 padded) of
           (a, b, c, d, e, f, g, h) \<Rightarrow>
             concat (map (\<lambda>x. beBytes 4 (unat x)) [a, b, c, d, e, f, g, h]))"

definition hexDigits :: string where
  "hexDigits = ''0123456789abcdef''"

definition hexByte :: "nat \<Rightarrow> string" where
  "hexByte b = [hexDigits ! ((b div 16) mod 16), hexDigits ! (b mod 16)]"

definition hexEncode :: "nat list \<Rightarrow> string" where
  "hexEncode bs = concat (map hexByte bs)"

definition bytesOf :: "string \<Rightarrow> nat list" where
  "bytesOf s = map of_char s"


subsection \<open>The connection hash and the generation entry point\<close>

text \<open>
  \<^verbatim>\<open>%v\<close> prints a slice of strings between brackets, separated by spaces.  The method
  is modelled with its receiver, although the body never reads it.
\<close>

definition generateConnectionHash :: "CollisionEngine \<Rightarrow> CollisionInput \<Rightarrow> string \<Rightarrow> string" where
  "generateConnectionHash e input domainName =
     (let content = ''['' @ Join (UserInterests input) '' '' @ '']'' @ ''|'' @
                    CurrentProject input @ ''|'' @ ProjectType input @ ''|'' @
                    CollisionIntensity input @ ''|'' @ domainName;
          hash = Sum256 (bytesOf content)
      in take 16 (hexEncode hash))"

datatype error = Err string

text \<open>The Go function returns \<^verbatim>\<open>(result, nil)\<close> on its only return path.\<close>

definition GenerateCollision ::
  "CollisionEngine \<Rightarrow> CollisionInput \<Rightarrow> Entropy \<Rightarrow> error + CollisionResult" where
  "GenerateCollision e input ent =
     (let primaryDomain = selectPrimaryDomain e (UserInterests input);
          (collisionDomain, reasoning) =
             selectCollisionDomain e input primaryDomain (randSelect ent);
          unused = generateConnectionHash e input (Name collisionDomain);
          result = \<lparr>res_ID = newUUID ent,
                    PrimaryDomain = primaryDomain,
                    CollisionDomainName = Name collisionDomain,
                    Connection = reasoning,
                    SparkQuestions = [], res_Examples = [], NextSteps = [],
                    QualityScore = calculateQualityScore input collisionDomain (randNoise ent),
                    Timestamp = timeNow ent,
                    Rating = None, Notes = None\<rparr>
      in Inr (enrichCollisionResult result input collisionDomain (randKeyword ent)))"

section \<open>The cache tier (RedisClient)\<close>

text \<open>
  UUIDs are carried in their textual form, so \<^verbatim>\<open>userID.String()\<close> is the identity.
  Instants are nanoseconds since the epoch; every \<^verbatim>\<open>time.Now()\<close> the code reads is an
  argument of the model.  A Redis command either fails (the next flag of \<open>redisFaults\<close>
  is set) and leaves the data alone, or runs on the data.  The usage entries hold the
  record that \<^verbatim>\<open>json.Marshal\<close> wrote, with the time to live in seconds.
\<close>

type_synonym uuid = string

definition uuidNil :: uuid where
  "uuidNil = ''00000000-0000-0000-0000-000000000000''"

record UserUsage =
  uu_ID :: uuid
  uu_UserID :: uuid
  CollisionCount :: int
  ResetDate :: int
  uu_CreatedAt :: int
  uu_UpdatedAt :: int

record RedisClient =
  usageEntries :: "string \<rightharpoonup> UserUsage \<times> int"
  zsets :: "string \<Rightarrow> (int \<times> int) list"
  expiry :: "string \<rightharpoonup> int"
  redisFaults :: "bool list"

definition redisErr :: error where
  "redisErr = Err ''redis: command failed''"

definition redisStep :: "RedisClient \<Rightarrow> bool \<times> RedisClient" where
  "redisStep r = (case redisFaults r of [] \<Rightarrow> (False, r) | f # fs \<Rightarrow> (f, r\<lparr>redisFaults := fs\<rparr>))"

definition digitChar :: "nat \<Rightarrow> char" where
  "digitChar d = ''0123456789'' ! d"

function natDigits :: "nat \<Rightarrow> string" where
  "natDigits n = (if n < 10 then [digitChar n] else natDigits (n div 10) @ [digitChar (n mod 10)])"
  by pat_completeness auto
termination
  by (relation "measure id") auto

declare natDigits.simps [simp del]

definition Itoa :: "int \<Rightarrow> string" where
  "Itoa i = (if i < 0 then ''-'' @ natDigits (nat (- i)) else natDigits (nat i))"

definition KeyUserUsage :: "string \<Rightarrow> string" where
  "KeyUserUsage userID = ''user:usage:'' @ userID"

definition KeyRateLimit :: "string \<Rightarrow> int \<Rightarrow> string" where
  "KeyRateLimit userID window = ''rate:limit:'' @ userID @ '':'' @ Itoa window"

definition second :: int where
  "second = 1000000000"

definition Unix :: "int \<Rightarrow> int" where
  "Unix t = t div second"

subsection \<open>Commands\<close>

definition clientGet :: "RedisClient \<Rightarrow> string \<Rightarrow> (error + UserUsage option) \<times> RedisClient" where
  "clientGet r key =
     (case redisStep r of
        (True, r') \<Rightarrow> (Inl redisErr, r')
      | (False, r') \<Rightarrow> (Inr (map_option fst (usageEntries r' key)), r'))"

definition clientSet :: "RedisClient \<Rightarrow> string \<Rightarrow> UserUsage \<Rightarrow> int \<Rightarrow> error option \<times> RedisClient" where
  "clientSet r key v expiration =
     (case redisStep r of
        (True, r') \<Rightarrow> (Some redisErr, r')
      | (False, r') \<Rightarrow> (None, r'\<lparr>usageEntries := (usageEntries r')(key \<mapsto> (v, expiration))\<rparr>))"

definition clientDel :: "RedisClient \<Rightarrow> string \<Rightarrow> error option \<times> RedisClient" where
  "clientDel r key =
     (case redisStep r of
        (True, r') \<Rightarrow> (Some redisErr, r')
      | (False, r') \<Rightarrow> (None, r'\<lparr>usageEntries := (usageEntries r')(key := None)\<rparr>))"

definition ZRemRangeByScore ::
  "RedisClient \<Rightarrow> string \<Rightarrow> int \<Rightarrow> int \<Rightarrow> error option \<times> RedisClient" where
  "ZRemRangeByScore r key lo hi =
     (case redisStep r of
        (True, r') \<Rightarrow> (Some redisErr, r')
      | (False, r') \<Rightarrow>
          (None, r'\<lparr>zsets := (zsets r')
                     (key := filter (\<lambda>(member, score). \<not> (lo \<le> score \<and> score \<le> hi))
                               (zsets r' key))\<rparr>))"

definition ZCard :: "RedisClient \<Rightarrow> string \<Rightarrow> (error + int) \<times> RedisClient" where
  "ZCard r key =
     (case redisStep r of
        (True, r') \<Rightarrow> (Inl redisErr, r')
      | (False, r') \<Rightarrow> (Inr (int (length (zsets r' key))), r'))"

text \<open>Adding a member that is already in the set gives it the new score.\<close>

definition ZAdd :: "RedisClient \<Rightarrow> string \<Rightarrow> int \<Rightarrow> int \<Rightarrow> error option \<times> RedisClient" where
  "ZAdd r key score member =
     (case redisStep r of
        (True, r') \<Rightarrow> (Some redisErr, r')
      | (False, r') \<Rightarrow>
          (None, r'\<lparr>zsets := (zsets r')
                     (key := filter (\<lambda>(m, s). \<not> (m = member)) (zsets r' key) @ [(member, score)])\<rparr>))"

definition Expire :: "RedisClient \<Rightarrow> string \<Rightarrow> int \<Rightarrow> error option \<times> RedisClient" where
  "Expire r key seconds =
     (case redisStep r of
        (True, r') \<Rightarrow> (Some redisErr, r')
      | (False, r') \<Rightarrow> (None, r'\<lparr>expiry := (expiry r')(key \<mapsto> seconds)\<rparr>))"

text \<open>The member of lowest rank: lowest score, then lowest member.\<close>

fun lowestRank :: "(int \<times> int) list \<Rightarrow> (int \<times> int) option" where
  "lowestRank [] = None"
| "lowestRank ((m, s) # rest) =
     (case lowestRank rest of
        None \<Rightarrow> Some (m, s)
      | Some (m', s') \<Rightarrow> if s < s' \<or> (s = s' \<and> m \<le> m') then Some (m, s) else Some (m', s'))"

definition ZRange00 :: "RedisClient \<Rightarrow> string \<Rightarrow> (error + int list) \<times> RedisClient" where
  "ZRange00 r key =
     (case redisStep r of
        (True, r') \<Rightarrow> (Inl redisErr, r')
      | (False, r') \<Rightarrow>
          (Inr (case lowestRank (zsets r' key) of None \<Rightarrow> [] | Some (m, s) \<Rightarrow> [m]), r'))"

definition ZScore :: "RedisClient \<Rightarrow> string \<Rightarrow> int \<Rightarrow> (error + int) \<times> RedisClient" where
  "ZScore r key member =
     (case redisStep r of
        (True, r') \<Rightarrow> (Inl redisErr, r')
      | (False, r') \<Rightarrow>
          (case map_of (zsets r' key) member of
             None \<Rightarrow> (Inl (Err ''redis: nil''), r')
           | Some s \<Rightarrow> (Inr s, r')))"

subsection \<open>Methods of RedisClient\<close>

definition CacheUserUsage ::
  "RedisClient \<Rightarrow> string \<Rightarrow> UserUsage \<Rightarrow> int \<Rightarrow> error option \<times> RedisClient" where
  "CacheUserUsage r userID usage expiration = clientSet r (KeyUserUsage userID) usage expiration"

text \<open>
  The result is the pair \<^verbatim>\<open>(*models.UserUsage, error)\<close>: \<open>Inr None\<close> is
  \<^verbatim>\<open>(nil, nil)\<close>, the cache miss.
\<close>

definition GetCachedUserUsage ::
  "RedisClient \<Rightarrow> string \<Rightarrow> (error + UserUsage option) \<times> RedisClient" where
  "GetCachedUserUsage r userID =
     (case clientGet r (KeyUserUsage userID) of
        (Inl err, r') \<Rightarrow> (Inl err, r')
      | (Inr None, r') \<Rightarrow> (Inr None, r')
      | (Inr (Some usage), r') \<Rightarrow> (Inr (Some usage), r'))"

definition InvalidateUserUsage :: "RedisClient \<Rightarrow> string \<Rightarrow> error option \<times> RedisClient" where
  "InvalidateUserUsage r userID = clientDel r (KeyUserUsage userID)"

definition CheckRateLimit ::
  "RedisClient \<Rightarrow> string \<Rightarrow> int \<Rightarrow> int \<Rightarrow> int \<Rightarrow> (error + bool) \<times> RedisClient" where
  "CheckRateLimit r userID windowSeconds limit now =
     (let windowStart = now - windowSeconds * second;
          key = KeyRateLimit userID windowSeconds
      in case ZRemRangeByScore r key 0 (Unix windowStart) of
           (Some err, r1) \<Rightarrow> (Inl err, r1)
         | (None, r1) \<Rightarrow>
             (case ZCard r1 key of
                (Inl err, r2) \<Rightarrow> (Inl err, r2)
              | (Inr count, r2) \<Rightarrow>
                  if count \<ge> limit then (Inr False, r2)
                  else (case ZAdd r2 key (Unix now) now of
                          (Some err, r3) \<Rightarrow> (Inl err, r3)
                        | (None, r3) \<Rightarrow> (Inr True, snd (Expire r3 key windowSeconds)))))"

text \<open>
  The result is \<^verbatim>\<open>(remaining, resetTime, err)\<close>, the duration in nanoseconds; the
  error returns carry the zero values, which is what a caller that drops the error reads.
\<close>

definition GetRateLimitStatus ::
  "RedisClient \<Rightarrow> string \<Rightarrow> int \<Rightarrow> int \<Rightarrow> int \<Rightarrow> (int \<times> int \<times> error option) \<times> RedisClient" where
  "GetRateLimitStatus r userID windowSeconds limit now =
     (let windowStart = now - windowSeconds * second;
          key = KeyRateLimit userID windowSeconds
      in case ZRemRangeByScore r key 0 (Unix windowStart) of
           (Some err, r1) \<Rightarrow> ((0, 0, Some err), r1)
         | (None, r1) \<Rightarrow>
             (case ZCard r1 key of
                (Inl err, r2) \<Rightarrow> ((0, 0, Some err), r2)
              | (Inr count, r2) \<Rightarrow>
                  let remaining = (if limit - count < 0 then 0 else limit - count)
                  in if count > 0 then
                       (case ZRange00 r2 key of
                          (Inr (m # ms), r3) \<Rightarrow>
                            let (score, r4) = ZScore r3 key m;
                                oldestTime = (case score of Inr sc \<Rightarrow> sc * second | Inl err \<Rightarrow> 0);
                                resetTime = oldestTime + windowSeconds * second - now
                            in ((remaining, if resetTime < 0 then 0 else resetTime, None), r4)
                        | (other, r3) \<Rightarrow> ((remaining, 0, None), r3))
                     else ((remaining, 0, None), r2)))"

section \<open>The durable store (PostgresDB)\<close>

text \<open>
  The two tables the claims read, as lists of rows.  A statement either fails (the next
  flag of \<open>dbFaults\<close> is set) and changes nothing, or runs.  \<^verbatim>\<open>CURRENT_DATE\<close> is the
  midnight before the instant of the call, and a \<^verbatim>\<open>DATE\<close> column keeps midnights.
\<close>

record CollisionSession =
  ses_ID :: uuid
  ses_UserID :: uuid
  InputData :: CollisionInput
  ses_CollisionResult :: CollisionResult
  UserRating :: "int option"
  ExplorationNotes :: "string option"
  ses_CreatedAt :: int

record PostgresDB =
  collision_sessions :: "CollisionSession list"
  user_usage :: "UserUsage list"
  dbFaults :: "bool list"

definition dbErr :: error where
  "dbErr = Err ''pq: statement failed''"

definition dbStep :: "PostgresDB \<Rightarrow> bool \<times> PostgresDB" where
  "dbStep p = (case dbFaults p of [] \<Rightarrow> (False, p) | f # fs \<Rightarrow> (f, p\<lparr>dbFaults := fs\<rparr>))"

definition day :: int where
  "day = 86400 * second"

definition currentDate :: "int \<Rightarrow> int" where
  "currentDate now = (now div day) * day"

definition inUsageWindow :: "uuid \<Rightarrow> int \<Rightarrow> UserUsage \<Rightarrow> bool" where
  "inUsageWindow userID now u =
     (uu_UserID u = userID \<and> ResetDate u \<ge> currentDate now - 7 * day)"

text \<open>\<^verbatim>\<open>ORDER BY reset_date DESC LIMIT 1\<close>.\<close>

fun latestUsage :: "UserUsage list \<Rightarrow> UserUsage option" where
  "latestUsage [] = None"
| "latestUsage (u # us) =
     (case latestUsage us of
        None \<Rightarrow> Some u
      | Some v \<Rightarrow> if ResetDate u \<ge> ResetDate v then Some u else Some v)"

definition CreateCollisionSession ::
  "PostgresDB \<Rightarrow> CollisionSession \<Rightarrow> error option \<times> PostgresDB" where
  "CreateCollisionSession p session =
     (case dbStep p of
        (True, p') \<Rightarrow> (Some dbErr, p')
      | (False, p') \<Rightarrow>
          (None, p'\<lparr>collision_sessions :=
                      collision_sessions p' @ [session\<lparr>UserRating := None, ExplorationNotes := None\<rparr>]\<rparr>))"

definition PostgresDB_RateCollision ::
  "PostgresDB \<Rightarrow> uuid \<Rightarrow> uuid \<Rightarrow> int \<Rightarrow> string option \<Rightarrow> error option \<times> PostgresDB" where
  "PostgresDB_RateCollision p sessionID userID rating notes =
     (case dbStep p of
        (True, p') \<Rightarrow> (Some dbErr, p')
      | (False, p') \<Rightarrow>
          (None, p'\<lparr>collision_sessions :=
                      map (\<lambda>row. if ses_ID row = sessionID \<and> ses_UserID row = userID
                                  then row\<lparr>UserRating := Some rating, ExplorationNotes := notes\<rparr>
                                  else row)
                          (collision_sessions p')\<rparr>))"

text \<open>\<open>fresh\<close> is the \<^verbatim>\<open>uuid.New()\<close> of the record created when no row is found.\<close>

definition GetUserUsage ::
  "PostgresDB \<Rightarrow> uuid \<Rightarrow> uuid \<Rightarrow> int \<Rightarrow> (error + UserUsage) \<times> PostgresDB" where
  "GetUserUsage p userID fresh now =
     (case dbStep p of
        (True, p1) \<Rightarrow> (Inl dbErr, p1)
      | (False, p1) \<Rightarrow>
          (case latestUsage (filter (inUsageWindow userID now) (user_usage p1)) of
             Some usage \<Rightarrow> (Inr usage, p1)
           | None \<Rightarrow>
               let usage = \<lparr>uu_ID = fresh, uu_UserID = userID, CollisionCount = 0,
                             ResetDate = now, uu_CreatedAt = now, uu_UpdatedAt = now\<rparr>
               in (case dbStep p1 of
                     (True, p2) \<Rightarrow> (Inl dbErr, p2)
                   | (False, p2) \<Rightarrow>
                       (Inr usage,
                        p2\<lparr>user_usage :=
                             user_usage p2 @ [usage\<lparr>ResetDate := currentDate now\<rparr>]\<rparr>))))"

definition IncrementUserUsage :: "PostgresDB \<Rightarrow> uuid \<Rightarrow> int \<Rightarrow> error option \<times> PostgresDB" where
  "IncrementUserUsage p userID now =
     (case dbStep p of
        (True, p') \<Rightarrow> (Some dbErr, p')
      | (False, p') \<Rightarrow>
          (None, p'\<lparr>user_usage :=
                      map (\<lambda>u. if inUsageWindow userID now u
                                then u\<lparr>CollisionCount := CollisionCount u + 1, uu_UpdatedAt := now\<rparr>
                                else u)
                          (user_usage p')\<rparr>))"

section \<open>Requests, responses and the request context\<close>

record ErrorResponse =
  er_Error :: string
  er_Message :: string
  er_Code :: int

datatype body = ErrorBody ErrorResponse | ResultBody CollisionResult | MessageBody string

text \<open>
  What a handler does with a request: call the next handler, write a response, return an
  error (a \<^verbatim>\<open>fiber.Error\<close> with its status), or panic.
\<close>

datatype outcome = Next | Respond int body | ReturnError int string | Panic string

text \<open>
  \<open>ipAsUUID\<close> is the result of \<^verbatim>\<open>uuid.Parse(c.IP())\<close>, \<open>None\<close> when it fails.
\<close>

record Ctx =
  local_user_id :: "uuid option"
  local_subscription_tier :: "string option"
  local_user_usage :: "UserUsage option"
  ipAsUUID :: "uuid option"
  responseHeaders :: "string \<rightharpoonup> string"

record World =
  db :: PostgresDB
  redis :: RedisClient
  ctx :: Ctx
  stdout :: "string list"

definition TierFree :: string where "TierFree = ''free''"
definition TierPro :: string where "TierPro = ''pro''"
definition TierTeam :: string where "TierTeam = ''team''"

definition UsageLimits :: "string \<rightharpoonup> int" where
  "UsageLimits = [TierFree \<mapsto> 5, TierPro \<mapsto> - 1, TierTeam \<mapsto> - 1]"

definition GetUserIDFromContext :: "Ctx \<Rightarrow> (int \<times> string) + uuid" where
  "GetUserIDFromContext c =
     (case local_user_id c of
        None \<Rightarrow> Inl (401, ''User not authenticated'')
      | Some userID \<Rightarrow> Inr userID)"

definition GetSubscriptionTierFromContext :: "Ctx \<Rightarrow> string" where
  "GetSubscriptionTierFromContext c =
     (case local_subscription_tier c of None \<Rightarrow> TierFree | Some tier \<Rightarrow> tier)"

definition setHeader :: "string \<Rightarrow> string \<Rightarrow> World \<Rightarrow> World" where
  "setHeader k v w = w\<lparr>ctx := (ctx w)\<lparr>responseHeaders := (responseHeaders (ctx w))(k \<mapsto> v)\<rparr>\<rparr>"

definition printLine :: "string \<Rightarrow> World \<Rightarrow> World" where
  "printLine line w = w\<lparr>stdout := stdout w @ [line]\<rparr>"

definition errorText :: "error \<Rightarrow> string" where
  "errorText err = (case err of Err msg \<Rightarrow> msg)"

section \<open>Middleware (package middleware)\<close>

record RateLimitConfig =
  WindowSeconds :: int
  MaxRequests :: int
  SkipPremium :: bool

definition rateLimitExceeded :: "string \<Rightarrow> outcome" where
  "rateLimitExceeded message =
     Respond 429 (ErrorBody \<lparr>er_Error = ''rate_limit_exceeded'', er_Message = message, er_Code = 429\<rparr>)"

text \<open>
  \<open>tCheck\<close>, \<open>tStatus\<close> and \<open>tHeader\<close> are the instants read by \<^verbatim>\<open>CheckRateLimit\<close>,
  by \<^verbatim>\<open>GetRateLimitStatus\<close> and for the reset header.  When the context holds no user,
  the outer \<^verbatim>\<open>userID\<close> stays \<^verbatim>\<open>uuid.Nil\<close>: the parsed address is a shadowing variable.
\<close>

definition RateLimitMiddleware ::
  "RateLimitConfig \<Rightarrow> World \<Rightarrow> int \<Rightarrow> int \<Rightarrow> int \<Rightarrow> outcome \<times> World" where
  "RateLimitMiddleware config w tCheck tStatus tHeader =
     (let (userID, unidentified) =
            (case GetUserIDFromContext (ctx w) of
               Inr uid \<Rightarrow> (uid, False)
             | Inl err \<Rightarrow>
                 (uuidNil, (case ipAsUUID (ctx w) of None \<Rightarrow> True | Some parsed \<Rightarrow> parsed = uuidNil)))
      in if unidentified then (rateLimitExceeded ''Unable to identify user for rate limiting'', w)
         else
           let userIDStr = userID;
               tier = GetSubscriptionTierFromContext (ctx w)
           in if SkipPremium config \<and> (tier = TierPro \<or> tier = TierTeam) then (Next, w)
              else
                (case CheckRateLimit (redis w) userIDStr (WindowSeconds config) (MaxRequests config) tCheck of
                   (Inl err, r1) \<Rightarrow>
                     (Next, printLine (''Rate limit check failed: '' @ errorText err) (w\<lparr>redis := r1\<rparr>))
                 | (Inr allowed, r1) \<Rightarrow>
                     (case GetRateLimitStatus r1 userIDStr (WindowSeconds config) (MaxRequests config) tStatus of
                        ((remaining, resetTime, err), r2) \<Rightarrow>
                          if \<not> allowed then
                            (rateLimitExceeded (''Rate limit exceeded. Try again in '' @
                                                Itoa (resetTime div second) @ '' seconds''),
                             setHeader ''X-RateLimit-Reset'' (Itoa (Unix (tHeader + resetTime)))
                               (setHeader ''X-RateLimit-Remaining'' (Itoa remaining)
                                 (setHeader ''X-RateLimit-Limit'' (Itoa (MaxRequests config))
                                   (w\<lparr>redis := r2\<rparr>))))
                          else
                            (Next,
                             setHeader ''X-RateLimit-Reset'' (Itoa (Unix (tHeader + resetTime)))
                               (setHeader ''X-RateLimit-Remaining'' (Itoa (remaining - 1))
                                 (setHeader ''X-RateLimit-Limit'' (Itoa (MaxRequests config))
                                   (w\<lparr>redis := r2\<rparr>)))))))"

definition usageLimitExceeded :: "int \<Rightarrow> outcome" where
  "usageLimitExceeded limit =
     Respond 402 (ErrorBody \<lparr>er_Error = ''usage_limit_exceeded'',
                             er_Message = ''Weekly limit of '' @ Itoa limit @
                               '' collisions exceeded. Upgrade to Pro for unlimited access.'',
                             er_Code = 402\<rparr>)"

definition usageCheckFailed :: outcome where
  "usageCheckFailed =
     Respond 500 (ErrorBody \<lparr>er_Error = ''usage_check_failed'',
                             er_Message = ''Unable to check usage limits'', er_Code = 500\<rparr>)"

text \<open>
  The tail of \<^verbatim>\<open>UsageLimitMiddleware\<close>, from the lookup of the limit on.  \<open>usage\<close> is the
  pointer the lookup left: \<open>None\<close> is \<^verbatim>\<open>nil\<close>, and \<^verbatim>\<open>usage.CollisionCount\<close> is read only
  when \<^verbatim>\<open>limit > 0\<close> holds, the left operand of \<^verbatim>\<open>&&\<close>.
\<close>

definition checkWeeklyLimit :: "string \<Rightarrow> UserUsage option \<Rightarrow> World \<Rightarrow> outcome \<times> World" where
  "checkWeeklyLimit tier usage w =
     (let limit = (case UsageLimits tier of None \<Rightarrow> 0 | Some l \<Rightarrow> l)
      in if limit > 0 then
           (case usage of
              None \<Rightarrow> (Panic ''runtime error: invalid memory address or nil pointer dereference'', w)
            | Some u \<Rightarrow>
                if CollisionCount u \<ge> limit then (usageLimitExceeded limit, w)
                else (Next, w\<lparr>ctx := (ctx w)\<lparr>local_user_usage := usage\<rparr>\<rparr>))
         else (Next, w\<lparr>ctx := (ctx w)\<lparr>local_user_usage := usage\<rparr>\<rparr>))"

text \<open>\<open>fresh\<close> and \<open>now\<close> are the UUID and the instant \<^verbatim>\<open>GetUserUsage\<close> may need.\<close>

definition UsageLimitMiddleware :: "World \<Rightarrow> uuid \<Rightarrow> int \<Rightarrow> outcome \<times> World" where
  "UsageLimitMiddleware w fresh now =
     (case GetUserIDFromContext (ctx w) of
        Inl (code, message) \<Rightarrow> (ReturnError code message, w)
      | Inr userID \<Rightarrow>
          let tier = GetSubscriptionTierFromContext (ctx w)
          in if tier = TierPro \<or> tier = TierTeam then (Next, w)
             else
               let userIDStr = userID
               in (case GetCachedUserUsage (redis w) userIDStr of
                     (Inl err, r1) \<Rightarrow>
                       (case GetUserUsage (db w) userID fresh now of
                          (Inl err', d1) \<Rightarrow> (usageCheckFailed, w\<lparr>db := d1, redis := r1\<rparr>)
                        | (Inr usage, d1) \<Rightarrow>
                            checkWeeklyLimit tier (Some usage)
                              (w\<lparr>db := d1, redis := snd (CacheUserUsage r1 userIDStr usage 300)\<rparr>))
                   | (Inr usage, r1) \<Rightarrow> checkWeeklyLimit tier usage (w\<lparr>redis := r1\<rparr>)))"

section \<open>Handlers (package handlers)\<close>

text \<open>
  The language model is outside the repository: its four replies, after the parsing of
  the numbered lists, are inputs of the model (\<open>Inl\<close> for a failed or timed-out call).
\<close>

record AIReplies =
  aiConnection :: "error + string"
  aiQuestions :: "error + string list"
  aiExamples :: "error + string list"
  aiSteps :: "error + string list"

definition EnhanceCollisionResult :: "AIReplies \<Rightarrow> CollisionResult \<Rightarrow> CollisionResult \<times> error option" where
  "EnhanceCollisionResult ai result =
     (let r1 = (case aiConnection ai of
                  Inr enhanced \<Rightarrow> if enhanced \<noteq> [] then result\<lparr>Connection := enhanced\<rparr> else result
                | Inl err \<Rightarrow> result);
          r2 = (case aiQuestions ai of
                  Inr enhanced \<Rightarrow> if length enhanced > 0 then r1\<lparr>SparkQuestions := enhanced\<rparr> else r1
                | Inl err \<Rightarrow> r1);
          r3 = (case aiExamples ai of
                  Inr enhanced \<Rightarrow> if length enhanced > 0 then r2\<lparr>res_Examples := enhanced\<rparr> else r2
                | Inl err \<Rightarrow> r2);
          r4 = (case aiSteps ai of
                  Inr enhanced \<Rightarrow> if length enhanced > 0 then r3\<lparr>NextSteps := enhanced\<rparr> else r3
                | Inl err \<Rightarrow> r3)
      in (r4, None))"

definition findDomainByName :: "CollisionEngine \<Rightarrow> string \<Rightarrow> CollisionDomain option" where
  "findDomainByName e name = find (\<lambda>domain. Name domain = name) (Domains e)"

text \<open>The \<^verbatim>\<open>validate\<close> tags of \<^verbatim>\<open>models.CollisionInput\<close>.\<close>

definition validateCollisionInput :: "CollisionInput \<Rightarrow> bool" where
  "validateCollisionInput input =
     (length (UserInterests input) \<ge> 1 \<and>
      CurrentProject input \<noteq> [] \<and>
      List.member [''product'', ''content'', ''business'', ''research''] (ProjectType input) \<and>
      List.member [''gentle'', ''moderate'', ''radical''] (CollisionIntensity input))"

definition badRequest :: "string \<Rightarrow> string \<Rightarrow> outcome" where
  "badRequest kind message =
     Respond 400 (ErrorBody \<lparr>er_Error = kind, er_Message = message, er_Code = 400\<rparr>)"

definition internalError :: "string \<Rightarrow> string \<Rightarrow> outcome" where
  "internalError kind message =
     Respond 500 (ErrorBody \<lparr>er_Error = kind, er_Message = message, er_Code = 500\<rparr>)"

text \<open>
  \<open>reqBody\<close> is the parsed body (\<open>None\<close> when \<^verbatim>\<open>BodyParser\<close> fails), \<open>sessionID\<close> the
  \<^verbatim>\<open>uuid.New()\<close> of the session and \<open>now\<close> the instant of the writes.  The engine is the
  one \<^verbatim>\<open>Initialize\<close> built at startup.
\<close>

definition CollisionHandler_GenerateCollision ::
  "CollisionEngine \<Rightarrow> AIReplies \<Rightarrow> World \<Rightarrow> CollisionInput option \<Rightarrow> Entropy \<Rightarrow> uuid \<Rightarrow> int
     \<Rightarrow> outcome \<times> World" where
  "CollisionHandler_GenerateCollision engine ai w reqBody ent sessionID now =
     (case GetUserIDFromContext (ctx w) of
        Inl (code, message) \<Rightarrow> (ReturnError code message, w)
      | Inr userID \<Rightarrow>
          let tier = GetSubscriptionTierFromContext (ctx w)
          in (case reqBody of
                None \<Rightarrow> (badRequest ''invalid_request'' ''Invalid request body'', w)
              | Some input \<Rightarrow>
                  if \<not> validateCollisionInput input
                  then (badRequest ''validation_failed'' ''validation error'', w)
                  else
                    (case GenerateCollision engine input ent of
                       Inl err \<Rightarrow>
                         (internalError ''collision_generation_failed'' ''Failed to generate collision'', w)
                     | Inr result0 \<Rightarrow>
                         let result =
                               (if tier = TierPro \<or> tier = TierTeam then
                                  (case findDomainByName engine (CollisionDomainName result0) of
                                     None \<Rightarrow> result0
                                   | Some domain \<Rightarrow> fst (EnhanceCollisionResult ai result0))
                                else result0);
                             session = \<lparr>ses_ID = sessionID, ses_UserID = userID, InputData = input,
                                        ses_CollisionResult = result, UserRating = None,
                                        ExplorationNotes = None, ses_CreatedAt = now\<rparr>;
                             w1 = (case CreateCollisionSession (db w) session of
                                     (Some err, d1) \<Rightarrow>
                                       printLine (''Failed to save collision session: '' @ errorText err)
                                         (w\<lparr>db := d1\<rparr>)
                                   | (None, d1) \<Rightarrow> w\<lparr>db := d1\<rparr>);
                             w2 = (if tier = TierFree then
                                     let w' = (case IncrementUserUsage (db w1) userID now of
                                                 (Some err, d2) \<Rightarrow>
                                                   printLine (''Failed to increment usage: '' @ errorText err)
                                                     (w1\<lparr>db := d2\<rparr>)
                                               | (None, d2) \<Rightarrow> w1\<lparr>db := d2\<rparr>)
                                     in w'\<lparr>redis := snd (InvalidateUserUsage (redis w') userID)\<rparr>
                                   else w1)
                         in (Respond 200 (ResultBody result), w2))))"

record RateRequest =
  rr_Rating :: int
  rr_Notes :: "string option"

text \<open>\<^verbatim>\<open>required,min=1,max=5\<close> on an integer: not zero, and between 1 and 5.\<close>

definition validateRateRequest :: "RateRequest \<Rightarrow> bool" where
  "validateRateRequest req = (rr_Rating req \<noteq> 0 \<and> 1 \<le> rr_Rating req \<and> rr_Rating req \<le> 5)"

text \<open>
  \<open>sessionIDParam\<close> is the result of \<^verbatim>\<open>uuid.Parse(c.Params("id"))\<close>, \<open>None\<close> when it
  fails.
\<close>

definition CollisionHandler_RateCollision ::
  "World \<Rightarrow> uuid option \<Rightarrow> RateRequest option \<Rightarrow> outcome \<times> World" where
  "CollisionHandler_RateCollision w sessionIDParam reqBody =
     (case GetUserIDFromContext (ctx w) of
        Inl (code, message) \<Rightarrow> (ReturnError code message, w)
      | Inr userID \<Rightarrow>
          (case sessionIDParam of
             None \<Rightarrow> (badRequest ''invalid_session_id'' ''Invalid session ID'', w)
           | Some sessionID \<Rightarrow>
               (case reqBody of
                  None \<Rightarrow> (badRequest ''invalid_request'' ''Invalid request body'', w)
                | Some req \<Rightarrow>
                    if \<not> validateRateRequest req
                    then (badRequest ''validation_failed'' ''validation error'', w)
                    else
                      (case PostgresDB_RateCollision (db w) sessionID userID (rr_Rating req) (rr_Notes req) of
                         (Some err, d1) \<Rightarrow>
                           (internalError ''rating_failed'' ''Failed to save rating'', w\<lparr>db := d1\<rparr>)
                       | (None, d1) \<Rightarrow>
                           (Respond 200 (MessageBody ''Rating saved successfully''), w\<lparr>db := d1\<rparr>)))))"

section \<open>The route POST /collisions/generate\<close>

text \<open>
  The chain registered in \<^verbatim>\<open>main\<close> after \<^verbatim>\<open>AuthMiddleware\<close>, which fills the locals of
  the context: usage limit, rate limit, handler.  Each handler runs only when the one
  before it called \<^verbatim>\<open>c.Next()\<close>.
\<close>

record GenerateCall =
  call_reqBody :: "CollisionInput option"
  call_entropy :: Entropy
  call_aiReplies :: AIReplies
  call_usageUUID :: uuid
  call_sessionUUID :: uuid
  call_tUsage :: int
  call_tCheck :: int
  call_tStatus :: int
  call_tHeader :: int
  call_tHandler :: int

definition mainRateLimitConfig :: RateLimitConfig where
  "mainRateLimitConfig = \<lparr>WindowSeconds = 60, MaxRequests = 10, SkipPremium = True\<rparr>"

definition postGenerate ::
  "RateLimitConfig \<Rightarrow> CollisionEngine \<Rightarrow> World \<Rightarrow> GenerateCall \<Rightarrow> outcome \<times> World" where
  "postGenerate config engine w call =
     (case UsageLimitMiddleware w (call_usageUUID call) (call_tUsage call) of
        (Next, w1) \<Rightarrow>
          (case RateLimitMiddleware config w1 (call_tCheck call) (call_tStatus call) (call_tHeader call) of
             (Next, w2) \<Rightarrow>
               CollisionHandler_GenerateCollision engine (call_aiReplies call) w2 (call_reqBody call)
                 (call_entropy call) (call_sessionUUID call) (call_tHandler call)
           | (stopped, w2) \<Rightarrow> (stopped, w2))
      | (stopped, w1) \<Rightarrow> (stopped, w1))"

text \<open>
  What the client gets: \<^verbatim>\<open>recover.New()\<close> turns a panic into an error, and the
  \<^verbatim>\<open>errorHandler\<close> of the application answers an error with its status, 500 unless
  it is a \<^verbatim>\<open>fiber.Error\<close>.
\<close>

definition errorHandler :: "int \<Rightarrow> string \<Rightarrow> outcome" where
  "errorHandler code message =
     Respond code (ErrorBody \<lparr>er_Error = ''server_error'', er_Message = message, er_Code = code\<rparr>)"

definition served :: "outcome \<Rightarrow> outcome" where
  "served out =
     (case out of
        Panic message \<Rightarrow> errorHandler 500 message
      | ReturnError code message \<Rightarrow> errorHandler code message
      | other \<Rightarrow> other)"

section \<open>Observations and fixtures\<close>

definition isLowerHexChar :: "char \<Rightarrow> bool" where
  "isLowerHexChar c =
     (let n = (of_char c :: nat) in (48 \<le> n \<and> n \<le> 57) \<or> (97 \<le> n \<and> n \<le> 102))"

definition errorKind :: "outcome \<Rightarrow> string option" where
  "errorKind out = (case out of Respond status (ErrorBody e) \<Rightarrow> Some (er_Error e) | _ \<Rightarrow> None)"

definition statusOf :: "outcome \<Rightarrow> int option" where
  "statusOf out = (case out of Respond status b \<Rightarrow> Some status | ReturnError status m \<Rightarrow> Some status
                   | _ \<Rightarrow> None)"

text \<open>The number of requests of a principal recorded in the window that ends at \<open>now\<close>.\<close>

definition recordedInWindow :: "RedisClient \<Rightarrow> string \<Rightarrow> int \<Rightarrow> int \<Rightarrow> int" where
  "recordedInWindow r userID windowSeconds now =
     int (length (filter (\<lambda>(member, score). \<not> (0 \<le> score \<and> score \<le> Unix (now - windowSeconds * second)))
                    (zsets r (KeyRateLimit userID windowSeconds))))"

text \<open>The domains of the engine's test suite, and requests against them.\<close>

definition biomimicry :: CollisionDomain where
  "biomimicry = zeroDomain\<lparr>dom_ID := ''d1'', Name := ''Biomimicry'', Category := ''Nature'',
     Description := ''How nature solves problems'',
     Keywords := [''evolution'', ''adaptation'', ''efficiency''],
     Intensity := [''gentle'', ''moderate''], Tier := ''basic''\<rparr>"

definition jazzImprovisation :: CollisionDomain where
  "jazzImprovisation = zeroDomain\<lparr>dom_ID := ''d2'', Name := ''Jazz Improvisation'',
     Category := ''Music'', Description := ''Spontaneous creation and structured freedom'',
     Keywords := [''improvisation'', ''spontaneity'', ''collaboration''],
     Intensity := [''moderate'', ''radical''], Tier := ''basic''\<rparr>"

definition quantumPhysics :: CollisionDomain where
  "quantumPhysics = zeroDomain\<lparr>dom_ID := ''d3'', Name := ''Quantum Physics'',
     Category := ''Science'', Description := ''Counterintuitive principles of reality'',
     Keywords := [''uncertainty'', ''entanglement'', ''superposition''],
     Intensity := [''radical''], Tier := ''premium''\<rparr>"

definition suiteEngine :: CollisionEngine where
  "suiteEngine = NewCollisionEngine [biomimicry, jazzImprovisation, quantumPhysics]"

definition emptyEngine :: CollisionEngine where
  "emptyEngine = NewCollisionEngine []"

definition suiteInput :: CollisionInput where
  "suiteInput = \<lparr>UserInterests = [''nature'', ''evolution''], CurrentProject = ''ecosystem design'',
     ProjectType = ''research'', CollisionIntensity = ''moderate''\<rparr>"

definition edgeInput :: CollisionInput where
  "edgeInput = \<lparr>UserInterests = [''test''], CurrentProject = ''test project'',
     ProjectType = ''product'', CollisionIntensity = ''moderate''\<rparr>"

definition someEntropy :: Entropy where
  "someEntropy = \<lparr>randSelect = 1 / 2, randNoise = 1 / 4, randKeyword = 7,
     newUUID = ''0b0e7a4c-55f1-4c3a-8f0e-2d6c1a9b7e33'', timeNow = 1700000000 * second\<rparr>"

definition noReplies :: AIReplies where
  "noReplies = \<lparr>aiConnection = Inl (Err ''timeout''), aiQuestions = Inl (Err ''timeout''),
     aiExamples = Inl (Err ''timeout''), aiSteps = Inl (Err ''timeout'')\<rparr>"

text \<open>A free principal, a cache and a store that answer every command, and nothing stored.\<close>

definition aliceID :: uuid where
  "aliceID = ''7d8a5c1e-3b2f-4c6d-9e0a-1f2b3c4d5e6f''"

definition sessionID0 :: uuid where
  "sessionID0 = ''c1a7f0d2-9b64-4e1b-a2c3-5d6e7f809a1b''"

definition noon :: int where
  "noon = 1700000000 * second"

definition emptyRedis :: RedisClient where
  "emptyRedis = \<lparr>usageEntries = Map.empty, zsets = (\<lambda>k. []), expiry = Map.empty, redisFaults = []\<rparr>"

definition emptyDB :: PostgresDB where
  "emptyDB = \<lparr>collision_sessions = [], user_usage = [], dbFaults = []\<rparr>"

definition freeCtx :: Ctx where
  "freeCtx = \<lparr>local_user_id = Some aliceID, local_subscription_tier = Some TierFree,
     local_user_usage = None, ipAsUUID = None, responseHeaders = Map.empty\<rparr>"

definition freeWorld :: World where
  "freeWorld = \<lparr>db = emptyDB, redis = emptyRedis, ctx = freeCtx, stdout = []\<rparr>"

text \<open>The same principal after five generations this week, as the usage table has it.\<close>

definition usageAtQuota :: UserUsage where
  "usageAtQuota = \<lparr>uu_ID = ''5e2d9c0a-7b1f-4a3e-8c6d-0f1e2d3c4b5a'', uu_UserID = aliceID,
     CollisionCount = 5, ResetDate = currentDate noon, uu_CreatedAt = noon - 3600 * second,
     uu_UpdatedAt = noon - 60 * second\<rparr>"

definition quotaWorld :: World where
  "quotaWorld = freeWorld\<lparr>db := emptyDB\<lparr>user_usage := [usageAtQuota]\<rparr>\<rparr>"

definition generateCall :: GenerateCall where
  "generateCall = \<lparr>call_reqBody = Some suiteInput, call_entropy = someEntropy,
     call_aiReplies = noReplies, call_usageUUID = ''9f8e7d6c-5b4a-4f3e-9d2c-1b0a9f8e7d6c'',
     call_sessionUUID = sessionID0, call_tUsage = noon, call_tCheck = noon, call_tStatus = noon,
     call_tHeader = noon, call_tHandler = noon\<rparr>"

text \<open>A session of another principal, and a rating request.\<close>

definition bobID :: uuid where
  "bobID = ''2a4c6e80-1b3d-4f5a-8c7e-9d0b1a2c3e4f''"

definition bobResult :: CollisionResult where
  "bobResult = \<lparr>res_ID = ''e3b0c442-98fc-4c14-9afb-f4c8996fb924'', PrimaryDomain = ''Biomimicry'',
     CollisionDomainName = ''Jazz Improvisation'',
     Connection = ''Drawing from Jazz Improvisation creates novel opportunities'',
     SparkQuestions = [], res_Examples = [], NextSteps = [], QualityScore = 50,
     Timestamp = noon, Rating = None, Notes = None\<rparr>"

definition bobSession :: CollisionSession where
  "bobSession = \<lparr>ses_ID = sessionID0, ses_UserID = bobID, InputData = suiteInput,
     ses_CollisionResult = bobResult, UserRating = None, ExplorationNotes = None,
     ses_CreatedAt = noon\<rparr>"

definition bobSessionWorld :: World where
  "bobSessionWorld = freeWorld\<lparr>db := emptyDB\<lparr>collision_sessions := [bobSession]\<rparr>\<rparr>"

definition fiveStars :: RateRequest where
  "fiveStars = \<lparr>rr_Rating = 5, rr_Notes = Some ''Great collision!''\<rparr>"

section \<open>The scorer\<close>

lemma keywordFold_nonneg:
  "0 \<le> s \<Longrightarrow> 0 \<le> foldl (\<lambda>s k. if P k then s + (c::real) else s) s ks" if "0 \<le> c"
  using that by (induction ks arbitrary: s) auto

lemma interestDomainScore_nonneg: "0 \<le> interestDomainScore interest domain"
  unfolding interestDomainScore_def Let_def
  by (auto intro!: keywordFold_nonneg add_nonneg_nonneg)

lemma relevanceFold_bounds:
  "0 \<le> s \<Longrightarrow> s \<le> t \<Longrightarrow>
   (case foldl (\<lambda>(score, totalPossible) interest.
                  (score + min (interestDomainScore interest domain) 3, totalPossible + 3))
               (s, t) interests of
      (s', t') \<Rightarrow> 0 \<le> s' \<and> s' \<le> t' \<and> t' = t + 3 * real (length interests))"
proof (induction interests arbitrary: s t)
  case Nil
  then show ?case by simp
next
  case (Cons x xs)
  have a: "0 \<le> s + min (interestDomainScore x domain) 3"
    using Cons.prems interestDomainScore_nonneg [of x domain] by simp
  have b: "s + min (interestDomainScore x domain) 3 \<le> t + 3"
    using Cons.prems by simp
  from Cons.IH [OF a b] show ?case
    by (simp add: algebra_simps split: prod.splits)
qed

lemma calculateInterestRelevance_bounds:
  "0 \<le> calculateInterestRelevance interests domain \<and>
   calculateInterestRelevance interests domain \<le> 1"
proof (cases "interests = []")
  case True
  then show ?thesis by (simp add: calculateInterestRelevance_def)
next
  case False
  obtain s' t' :: real where st:
    "foldl (\<lambda>(score, totalPossible) interest.
                  (score + min (interestDomainScore interest domain) 3, totalPossible + 3))
               (0 :: real, 0 :: real) interests = (s', t')"
    by (cases "foldl (\<lambda>(score, totalPossible) interest.
                  (score + min (interestDomainScore interest domain) 3, totalPossible + 3))
               (0::real, 0::real) interests") 
  from relevanceFold_bounds [where s = 0 and t = 0 and domain = domain and interests = interests] st
  have "0 \<le> s'" "s' \<le> t'" "t' = 3 * real (length interests)" by auto
  moreover have "0 < t'" using calculation False by simp
  ultimately show ?thesis
    using False st by (simp add: calculateInterestRelevance_def)
qed

lemma calculateNoveltyScore_bounds:
  "0 \<le> calculateNoveltyScore interests domain \<and> calculateNoveltyScore interests domain \<le> 1"
  unfolding calculateNoveltyScore_def Let_def
  by (auto simp: min_def max_def)

text \<open>
  Claim C6.  For every domain and every list of interests the interest relevance lies in
  \<open>[0, 1]\<close> and is \<open>0\<close> for the empty list, the novelty lies in \<open>[0, 1]\<close>, and the
  quality score lies in \<open>[0, 100]\<close>, whatever the noise drawn.
\<close>

theorem C6_score_ranges:
  "0 \<le> calculateInterestRelevance interests d \<and> calculateInterestRelevance interests d \<le> 1 \<and>
   calculateInterestRelevance [] d = 0 \<and>
   0 \<le> calculateNoveltyScore interests d \<and> calculateNoveltyScore interests d \<le> 1 \<and>
   0 \<le> calculateQualityScore input d noise \<and> calculateQualityScore input d noise \<le> 100"
proof -
  have q: "0 \<le> calculateQualityScore input d noise \<and> calculateQualityScore input d noise \<le> 100"
    unfolding calculateQualityScore_def Let_def by simp
  have z: "calculateInterestRelevance [] d = 0"
    by (simp add: calculateInterestRelevance_def)
  show ?thesis
    using calculateInterestRelevance_bounds [of interests d]
      calculateNoveltyScore_bounds [of interests d] q z by blast
qed

text \<open>
  Claim C7.  The score by which the candidates are ranked is the weighted sum of the
  project relevance and the novelty, with the weights (0.6, 0.4) for gentle, (0.4, 0.6)
  for moderate and (0.2, 0.8) for radical; the relevance weight is the larger one for
  gentle and the novelty weight for radical.
\<close>

theorem C7_composite_weights:
  "OverallScore (scoreCandidate input d) =
     fst (intensityWeight (CollisionIntensity input)) * calculateDomainRelevance input d +
     snd (intensityWeight (CollisionIntensity input)) * calculateNoveltyScore (UserInterests input) d \<and>
   calculateAntiEchoChamberScore relevance novelty intensity =
     fst (intensityWeight intensity) * relevance + snd (intensityWeight intensity) * novelty \<and>
   intensityWeight ''gentle'' = (0.6, 0.4) \<and>
   intensityWeight ''moderate'' = (0.4, 0.6) \<and>
   intensityWeight ''radical'' = (0.2, 0.8) \<and>
   fst (intensityWeight ''gentle'') > snd (intensityWeight ''gentle'') \<and>
   snd (intensityWeight ''radical'') > fst (intensityWeight ''radical'')"
  by (simp add: scoreCandidate_def calculateAntiEchoChamberScore_def intensityWeight_def
      antiEchoWeights_def Let_def mult.commute)

section \<open>The connection hash\<close>

lemma hexDigits_lower: "list_all isLowerHexChar hexDigits"
  by (simp add: hexDigits_def isLowerHexChar_def)

lemma hexDigits_nth: "i < 16 \<Longrightarrow> isLowerHexChar (hexDigits ! i)"
proof -
  assume "i < 16"
  moreover have "length hexDigits = 16" by (simp add: hexDigits_def)
  ultimately have "hexDigits ! i \<in> set hexDigits" by (metis nth_mem)
  then show ?thesis using hexDigits_lower by (simp add: list_all_iff)
qed

lemma hexEncode_length: "length (hexEncode bs) = 2 * length bs"
  by (induction bs) (simp_all add: hexEncode_def hexByte_def)

lemma hexEncode_lower: "list_all isLowerHexChar (hexEncode bs)"
  by (induction bs) (simp_all add: hexEncode_def hexByte_def hexDigits_nth)

lemma Sum256_length: "length (Sum256 msg) = 32"
  unfolding Sum256_def Let_def beBytes_def by (simp split: prod.splits)

lemma list_all_take: "list_all P xs \<Longrightarrow> list_all P (take n xs)"
  by (auto simp: list_all_iff dest: in_set_takeD)

text \<open>
  Claim C9.  The connection hash is a string of 16 lowercase hexadecimal digits, and it is
  a function of the collision input and the domain name alone: the engine it is called on
  has no part in it.
\<close>

theorem C9_connection_hash:
  "length (generateConnectionHash e input domainName) = 16 \<and>
   list_all isLowerHexChar (generateConnectionHash e input domainName) \<and>
   generateConnectionHash e input domainName = generateConnectionHash e' input domainName"
  by (simp add: generateConnectionHash_def Let_def hexEncode_length Sum256_length
      list_all_take hexEncode_lower)

section \<open>The selector\<close>

lemma scanWeights_range:
  "scanWeights ws target cumulative i = Some j \<Longrightarrow> i \<le> j \<and> j < i + length ws"
proof (induction ws arbitrary: cumulative i)
  case Nil
  then show ?case by simp
next
  case (Cons w ws)
  show ?case
  proof (cases "cumulative + w \<ge> target")
    case True
    with Cons.prems show ?thesis by simp
  next
    case False
    with Cons.prems have "scanWeights ws target (cumulative + w) (i + 1) = Some j" by simp
    from Cons.IH [OF this] show ?thesis by simp
  qed
qed

lemma selectWithRandomness_mem:
  assumes "matches \<noteq> []"
  shows "selectWithRandomness matches intensity r \<in> set matches"
proof -
  define poolSize0 where "poolSize0 = (case poolSizes intensity of
                              Some sz \<Rightarrow> sz
                            | None \<Rightarrow> (case poolSizes ''moderate'' of Some sz \<Rightarrow> sz | None \<Rightarrow> 0))"
  define poolSize where "poolSize = (if poolSize0 > length matches then length matches else poolSize0)"
  define ws where "ws = map (\<lambda>i. exp (- real i * 0.5)) [0..<poolSize]"
  define target where "target = r * foldl (+) 0 ws"
  have len: "length ws \<le> length matches" by (simp add: ws_def poolSize_def)
  have eq: "selectWithRandomness matches intensity r =
        (case scanWeights ws target 0 0 of Some i \<Rightarrow> matches ! i | None \<Rightarrow> matches ! 0)"
    using assms
    by (simp add: selectWithRandomness_def Let_def poolSize0_def poolSize_def ws_def target_def)
  show ?thesis
  proof (cases "scanWeights ws target 0 0")
    case None
    then show ?thesis using eq assms by simp
  next
    case (Some j)
    from scanWeights_range [OF this] len have "j < length matches" by simp
    then show ?thesis using eq Some by simp
  qed
qed

lemma selectCollisionDomain_mem:
  assumes "filterCandidateDomains e input primaryDomain \<noteq> []"
  shows "fst (selectCollisionDomain e input primaryDomain r)
           \<in> set (filterCandidateDomains e input primaryDomain)"
proof -
  let ?ms = "sortMatches (map (scoreCandidate input) (filterCandidateDomains e input primaryDomain))"
  have "length ?ms = length (filterCandidateDomains e input primaryDomain)"
    by (simp add: sortMatches_def)
  with assms have ne: "?ms \<noteq> []" by auto
  have "selectWithRandomness ?ms (CollisionIntensity input) r \<in> set ?ms"
    by (rule selectWithRandomness_mem [OF ne])
  then have "selectWithRandomness ?ms (CollisionIntensity input) r
                \<in> scoreCandidate input ` set (filterCandidateDomains e input primaryDomain)"
    by (simp add: sortMatches_def)
  then have "Domain (selectWithRandomness ?ms (CollisionIntensity input) r)
                \<in> set (filterCandidateDomains e input primaryDomain)"
    by (auto simp: scoreCandidate_def Let_def)
  then show ?thesis by (simp add: selectCollisionDomain_def Let_def)
qed

lemma GenerateCollision_result:
  "\<exists>result. GenerateCollision e input ent = Inr result \<and>
     PrimaryDomain result = selectPrimaryDomain e (UserInterests input) \<and>
     CollisionDomainName result =
       Name (fst (selectCollisionDomain e input (selectPrimaryDomain e (UserInterests input))
                    (randSelect ent)))"
  by (simp add: GenerateCollision_def Let_def enrichCollisionResult_def split: prod.splits)

text \<open>
  Claim C1.  When some catalog domain admits the requested intensity and is not the
  primary domain, generation returns a result whose collision domain differs from its
  primary domain, and the intensities of the chosen domain contain the requested one.
\<close>

theorem C1_collision_domain_admissible:
  assumes "list_ex (\<lambda>d. CollisionIntensity input \<in> set (Intensity d) \<and>
                        Name d \<noteq> selectPrimaryDomain e (UserInterests input)) (Domains e)"
  shows "\<exists>result. GenerateCollision e input ent = Inr result \<and>
           PrimaryDomain result = selectPrimaryDomain e (UserInterests input) \<and>
           CollisionDomainName result =
             Name (fst (selectCollisionDomain e input (PrimaryDomain result) (randSelect ent))) \<and>
           CollisionDomainName result \<noteq> PrimaryDomain result \<and>
           CollisionIntensity input
             \<in> set (Intensity (fst (selectCollisionDomain e input (PrimaryDomain result)
                                      (randSelect ent))))"
proof -
  let ?p = "selectPrimaryDomain e (UserInterests input)"
  let ?c = "fst (selectCollisionDomain e input ?p (randSelect ent))"
  from assms have "filterCandidateDomains e input ?p \<noteq> []"
    by (auto simp: filterCandidateDomains_def isIntensityCompatible_def list_ex_iff
        filter_empty_conv)
  from selectCollisionDomain_mem [OF this]
  have "?c \<in> set (filterCandidateDomains e input ?p)" .
  then have "Name ?c \<noteq> ?p" "CollisionIntensity input \<in> set (Intensity ?c)"
    by (auto simp: filterCandidateDomains_def isIntensityCompatible_def list_ex_iff)
  with GenerateCollision_result [of e input ent] show ?thesis by auto
qed

lemma suite_primary: "selectPrimaryDomain suiteEngine (UserInterests suiteInput) = ''Biomimicry''"
  by (simp add: selectPrimaryDomain_def suiteEngine_def suiteInput_def NewCollisionEngine_def
      biomimicry_def jazzImprovisation_def quantumPhysics_def zeroDomain_def
      calculateInterestRelevance_def interestDomainScore_def ToLower_def lowerChar_def)

text \<open>
  The request of the filter test against the suite's three domains: the primary domain is
  Biomimicry, and Jazz Improvisation is admissible at moderate intensity.
\<close>

theorem C1_collision_domain_admissible_witness:
  "list_ex (\<lambda>d. CollisionIntensity suiteInput \<in> set (Intensity d) \<and>
                 Name d \<noteq> selectPrimaryDomain suiteEngine (UserInterests suiteInput))
           (Domains suiteEngine) \<and>
   (\<exists>result. GenerateCollision suiteEngine suiteInput someEntropy = Inr result \<and>
      PrimaryDomain result = ''Biomimicry'' \<and>
      CollisionDomainName result \<noteq> PrimaryDomain result \<and>
      CollisionIntensity suiteInput
        \<in> set (Intensity (fst (selectCollisionDomain suiteEngine suiteInput (PrimaryDomain result)
                                 (randSelect someEntropy)))))"
proof -
  have h: "list_ex (\<lambda>d. CollisionIntensity suiteInput \<in> set (Intensity d) \<and>
                 Name d \<noteq> selectPrimaryDomain suiteEngine (UserInterests suiteInput))
           (Domains suiteEngine)"
    unfolding suite_primary
    by (simp add: suiteEngine_def suiteInput_def NewCollisionEngine_def
        biomimicry_def jazzImprovisation_def quantumPhysics_def zeroDomain_def)
  from C1_collision_domain_admissible [OF h, of someEntropy] suite_primary h
  show ?thesis by auto
qed

lemma selectCollisionDomain_fallback:
  "filterCandidateDomains e input primaryDomain = [] \<Longrightarrow>
   Name (fst (selectCollisionDomain e input primaryDomain r)) = ''Innovation''"
  by (simp add: selectCollisionDomain_def Let_def sortMatches_def selectWithRandomness_def
      fallbackMatch_def)

lemma no_candidates:
  "Domains e = [] \<or> list_all (\<lambda>d. CollisionIntensity input \<notin> set (Intensity d)) (Domains e) \<Longrightarrow>
   filterCandidateDomains e input primaryDomain = []"
  by (auto simp: filterCandidateDomains_def isIntensityCompatible_def list_all_iff list_ex_iff
      filter_empty_conv)

lemma GenerateCollision_not_error: "GenerateCollision e input ent \<noteq> Inl err"
  by (simp add: GenerateCollision_def Let_def split: prod.splits)

lemma handler_never_generation_failed:
  "errorKind (fst (CollisionHandler_GenerateCollision e ai w reqBody ent sessionID now))
     \<noteq> Some ''collision_generation_failed''"
  unfolding CollisionHandler_GenerateCollision_def
  by (auto simp: errorKind_def badRequest_def Let_def GenerateCollision_not_error
      split: sum.splits option.splits prod.splits)

text \<open>
  Claim C5.  Generation always returns a result and no error; against an empty catalog, or
  when no domain of the catalog admits the requested intensity, the collision domain of
  the result is the sentinel Innovation.  So the handler never answers
  \<^verbatim>\<open>collision_generation_failed\<close>.
\<close>

theorem C5_sentinel_and_no_error:
  "(\<exists>result. GenerateCollision e input ent = Inr result \<and>
      (Domains e = [] \<or>
       list_all (\<lambda>d. CollisionIntensity input \<notin> set (Intensity d)) (Domains e) \<longrightarrow>
       CollisionDomainName result = ''Innovation'')) \<and>
   errorKind (fst (CollisionHandler_GenerateCollision e ai w reqBody ent sessionID now))
     \<noteq> Some ''collision_generation_failed''"
proof -
  obtain result where r: "GenerateCollision e input ent = Inr result"
    "CollisionDomainName result =
       Name (fst (selectCollisionDomain e input (selectPrimaryDomain e (UserInterests input))
                    (randSelect ent)))"
    using GenerateCollision_result by blast
  have "Domains e = [] \<or>
       list_all (\<lambda>d. CollisionIntensity input \<notin> set (Intensity d)) (Domains e) \<longrightarrow>
       CollisionDomainName result = ''Innovation''"
    using r(2) no_candidates selectCollisionDomain_fallback by metis
  with r(1) handler_never_generation_failed show ?thesis by blast
qed

text \<open>The edge-case test of the suite: an engine with no domains.\<close>

theorem C5_sentinel_and_no_error_witness:
  "Domains emptyEngine = [] \<and>
   (\<exists>result. GenerateCollision emptyEngine edgeInput someEntropy = Inr result \<and>
      CollisionDomainName result = ''Innovation'')"
proof -
  have h: "Domains emptyEngine = []" by (simp add: emptyEngine_def NewCollisionEngine_def)
  from C5_sentinel_and_no_error [of emptyEngine edgeInput someEntropy] h
  show ?thesis by auto
qed

section \<open>The rate limiter\<close>

text \<open>
  Claim C8.  When the rate-limit check of an identified principal is run and the cache
  answers it with an error, the middleware calls the next handler: the request is neither
  denied nor answered with an error, and the failure is printed to the log.
\<close>

theorem C8_rate_limit_fails_open:
  assumes "local_user_id (ctx w) = Some userID"
    and "\<not> (SkipPremium config \<and>
              (GetSubscriptionTierFromContext (ctx w) = TierPro \<or>
               GetSubscriptionTierFromContext (ctx w) = TierTeam))"
    and "CheckRateLimit (redis w) userID (WindowSeconds config) (MaxRequests config) tCheck
           = (Inl err, r')"
  shows "RateLimitMiddleware config w tCheck tStatus tHeader
           = (Next, w\<lparr>redis := r',
                        stdout := stdout w @ [''Rate limit check failed: '' @ errorText err]\<rparr>)"
  using assms
  by (auto simp: RateLimitMiddleware_def GetUserIDFromContext_def Let_def printLine_def)

text \<open>A cache that fails the first command makes the check return its error.\<close>

lemma CheckRateLimit_down:
  "redisFaults r = True # fs \<Longrightarrow>
   CheckRateLimit r userID windowSeconds limit now = (Inl redisErr, r\<lparr>redisFaults := fs\<rparr>)"
  by (simp add: CheckRateLimit_def ZRemRangeByScore_def redisStep_def Let_def)

text \<open>The cache fails the first command of the check.\<close>

theorem C8_rate_limit_fails_open_witness:
  "local_user_id (ctx (freeWorld\<lparr>redis := emptyRedis\<lparr>redisFaults := [True]\<rparr>\<rparr>)) = Some aliceID \<and>
   GetSubscriptionTierFromContext (ctx (freeWorld\<lparr>redis := emptyRedis\<lparr>redisFaults := [True]\<rparr>\<rparr>))
     = TierFree \<and>
   CheckRateLimit (redis (freeWorld\<lparr>redis := emptyRedis\<lparr>redisFaults := [True]\<rparr>\<rparr>)) aliceID
       (WindowSeconds mainRateLimitConfig) (MaxRequests mainRateLimitConfig) noon
     = (Inl redisErr, emptyRedis) \<and>
   RateLimitMiddleware mainRateLimitConfig (freeWorld\<lparr>redis := emptyRedis\<lparr>redisFaults := [True]\<rparr>\<rparr>)
       noon noon noon
     = (Next, freeWorld\<lparr>stdout := [''Rate limit check failed: redis: command failed'']\<rparr>)"
proof -
  let ?w = "freeWorld\<lparr>redis := emptyRedis\<lparr>redisFaults := [True]\<rparr>\<rparr>"
  have u: "local_user_id (ctx ?w) = Some aliceID"
    by (simp add: freeWorld_def freeCtx_def)
  have t: "GetSubscriptionTierFromContext (ctx ?w) = TierFree"
    by (simp add: freeWorld_def freeCtx_def GetSubscriptionTierFromContext_def)
  have p: "\<not> (SkipPremium mainRateLimitConfig \<and>
              (GetSubscriptionTierFromContext (ctx ?w) = TierPro \<or>
               GetSubscriptionTierFromContext (ctx ?w) = TierTeam))"
    using t by (simp add: TierFree_def TierPro_def TierTeam_def)
  have c: "CheckRateLimit (redis ?w) aliceID
       (WindowSeconds mainRateLimitConfig) (MaxRequests mainRateLimitConfig) noon
     = (Inl redisErr, emptyRedis)"
    by (simp add: CheckRateLimit_down emptyRedis_def)
  from C8_rate_limit_fails_open [OF u p c, of noon noon] u t c
  show ?thesis
    by (simp add: freeWorld_def errorText_def redisErr_def)
qed

lemma redisStep_healthy: "redisFaults r = [] \<Longrightarrow> redisStep r = (False, r)"
  by (simp add: redisStep_def)

text \<open>
  The decision of the check on a cache that answers: it denies exactly when the number of
  requests recorded in the window has reached the limit, and otherwise records the
  request under its instant and sets the time to live of the key to the window.
\<close>

lemma CheckRateLimit_healthy:
  assumes "redisFaults r = []"
  shows "CheckRateLimit r userID windowSeconds limit now =
     (let key = KeyRateLimit userID windowSeconds;
          kept = filter (\<lambda>(member, score). \<not> (0 \<le> score \<and> score \<le> Unix (now - windowSeconds * second)))
                   (zsets r key)
      in if recordedInWindow r userID windowSeconds now \<ge> limit
         then (Inr False, r\<lparr>zsets := (zsets r)(key := kept)\<rparr>)
         else (Inr True,
               r\<lparr>zsets := (zsets r)(key := filter (\<lambda>(m, s). \<not> (m = now)) kept @ [(now, Unix now)]),
                 expiry := (expiry r)(key \<mapsto> windowSeconds)\<rparr>))"
  using assms
  by (simp add: CheckRateLimit_def ZRemRangeByScore_def ZCard_def ZAdd_def Expire_def
      redisStep_def recordedInWindow_def Let_def)

lemma Itoa_8: "Itoa 8 = ''8''"
  by (simp add: Itoa_def natDigits.simps digitChar_def)

lemma Unix_window: "1 \<le> windowSeconds \<Longrightarrow> Unix (now - windowSeconds * second) < Unix now"
proof -
  assume "1 \<le> windowSeconds"
  have "(now - windowSeconds * second) div second = now div second - windowSeconds"
    by (simp add: second_def div_mult_self4 [symmetric] flip: diff_conv_add_uminus)
  then show ?thesis using \<open>1 \<le> windowSeconds\<close> by (simp add: Unix_def)
qed

lemma GetRateLimitStatus_remaining:
  assumes "redisFaults r = []"
  shows "fst (fst (GetRateLimitStatus r userID windowSeconds limit now)) =
           max 0 (limit - recordedInWindow r userID windowSeconds now)"
  using assms
  by (simp add: GetRateLimitStatus_def ZRemRangeByScore_def ZCard_def ZRange00_def ZScore_def
      redisStep_def recordedInWindow_def Let_def max_def
      split: prod.splits sum.splits list.splits option.splits)

lemma recorded_after_allowed:
  assumes "redisFaults r = []" and "1 \<le> windowSeconds"
    and "recordedInWindow r userID windowSeconds now < limit"
    and "now \<notin> fst ` set (zsets r (KeyRateLimit userID windowSeconds))"
  shows "recordedInWindow (snd (CheckRateLimit r userID windowSeconds limit now))
           userID windowSeconds now
         = recordedInWindow r userID windowSeconds now + 1"
proof -
  let ?key = "KeyRateLimit userID windowSeconds"
  let ?P = "\<lambda>(member, score). \<not> (0 \<le> score \<and> score \<le> Unix (now - windowSeconds * second))"
  let ?kept = "filter ?P (zsets r ?key)"
  have "\<forall>x \<in> set ?kept. (\<lambda>(m, s). \<not> (m = now)) x"
    using assms(4) by force
  then have fresh: "filter (\<lambda>(m, s). \<not> (m = now)) ?kept = ?kept"
    by (metis (no_types, lifting) filter_True)
  have new: "?P (now, Unix now)"
    using Unix_window [OF assms(2), of now] by simp
  show ?thesis
    using assms(1,3) fresh new
    by (simp add: CheckRateLimit_healthy Let_def recordedInWindow_def)
qed



text \<open>
  The header of an allowed request, when the status is read at the instant of the check.
\<close>

lemma allowed_request_header:
  assumes healthy: "redisFaults (redis w) = []"
    and user: "local_user_id (ctx w) = Some userID"
    and run: "\<not> (SkipPremium config \<and>
              (GetSubscriptionTierFromContext (ctx w) = TierPro \<or>
               GetSubscriptionTierFromContext (ctx w) = TierTeam))"
    and window: "1 \<le> WindowSeconds config"
    and below: "recordedInWindow (redis w) userID (WindowSeconds config) now < MaxRequests config"
    and fresh: "now \<notin> fst ` set (zsets (redis w) (KeyRateLimit userID (WindowSeconds config)))"
  shows "fst (RateLimitMiddleware config w now now tHeader) = Next \<and>
         responseHeaders (ctx (snd (RateLimitMiddleware config w now now tHeader)))
           ''X-RateLimit-Remaining''
         = Some (Itoa (MaxRequests config
                       - recordedInWindow (redis w) userID (WindowSeconds config) now - 2))"
proof -
  let ?W = "WindowSeconds config" and ?L = "MaxRequests config"
  let ?c = "recordedInWindow (redis w) userID ?W now"
  obtain r1 where chk: "CheckRateLimit (redis w) userID ?W ?L now = (Inr True, r1)"
    and h1: "redisFaults r1 = []"
    using healthy below by (simp add: CheckRateLimit_healthy Let_def)
  have c1: "recordedInWindow r1 userID ?W now = ?c + 1"
    using recorded_after_allowed [OF healthy window below fresh] chk by simp
  obtain remaining resetTime err r2
    where st: "GetRateLimitStatus r1 userID ?W ?L now = ((remaining, resetTime, err), r2)"
    by (metis surj_pair)
  have "remaining = max 0 (?L - (?c + 1))"
    using GetRateLimitStatus_remaining [OF h1, of userID ?W ?L now] st c1 by simp
  with below have rem: "remaining - 1 = ?L - ?c - 2" by simp
  show ?thesis
    using user run
    by (auto simp: RateLimitMiddleware_def GetUserIDFromContext_def Let_def chk st setHeader_def rem)
qed

text \<open>
  Claim C2.  With \<open>c\<close> requests recorded in the window, the check denies exactly when
  \<open>c \<ge> L\<close> and otherwise records the request and sets the time to live
  (\<open>CheckRateLimit_healthy\<close>), and the remaining count reported with the decision is
  \<open>max(0, L - c - 1)\<close>.  The code reports less on every allowed request: the status is
  read after the request was recorded, and one more is subtracted for it
  (\<open>allowed_request_header\<close>).  Here no request is recorded and the limit is 10: the
  header says 8, not 9.
\<close>

theorem C2_remaining_header_off_by_one:
  "recordedInWindow (redis freeWorld) aliceID 60 noon = 0 \<and>
   MaxRequests mainRateLimitConfig = 10 \<and>
   fst (RateLimitMiddleware mainRateLimitConfig freeWorld noon noon noon) = Next \<and>
   responseHeaders (ctx (snd (RateLimitMiddleware mainRateLimitConfig freeWorld noon noon noon)))
     ''X-RateLimit-Remaining'' = Some ''8''"
  by (simp add: RateLimitMiddleware_def CheckRateLimit_def GetRateLimitStatus_def
      ZRemRangeByScore_def ZCard_def ZAdd_def Expire_def ZRange00_def ZScore_def redisStep_def
      recordedInWindow_def Let_def mainRateLimitConfig_def freeWorld_def freeCtx_def emptyRedis_def
      GetUserIDFromContext_def GetSubscriptionTierFromContext_def TierFree_def TierPro_def
      TierTeam_def setHeader_def Itoa_8 noon_def second_def Unix_def)

section \<open>The usage meter\<close>

text \<open>
  A cache miss leaves the usage pointer \<^verbatim>\<open>nil\<close> with no error, the store is not
  consulted, and the limit check of a free principal reads through the pointer.
\<close>

lemma cache_miss_panics:
  assumes user: "local_user_id (ctx w) = Some userID"
    and free: "GetSubscriptionTierFromContext (ctx w) = TierFree"
    and healthy: "redisFaults (redis w) = []"
    and miss: "usageEntries (redis w) (KeyUserUsage userID) = None"
  shows "UsageLimitMiddleware w fresh now =
           (Panic ''runtime error: invalid memory address or nil pointer dereference'', w)"
  using assms
  by (simp add: UsageLimitMiddleware_def GetUserIDFromContext_def GetCachedUserUsage_def
      clientGet_def redisStep_def checkWeeklyLimit_def UsageLimits_def TierFree_def TierPro_def
      TierTeam_def Let_def)

lemma cached_record_at_limit:
  assumes "local_user_id (ctx w) = Some userID"
    and "GetSubscriptionTierFromContext (ctx w) = TierFree"
    and "redisFaults (redis w) = []"
    and "usageEntries (redis w) (KeyUserUsage userID) = Some (usage, ttl)"
    and "CollisionCount usage \<ge> 5"
  shows "UsageLimitMiddleware w fresh now = (usageLimitExceeded 5, w)"
  using assms
  by (simp add: UsageLimitMiddleware_def GetUserIDFromContext_def GetCachedUserUsage_def
      clientGet_def redisStep_def checkWeeklyLimit_def UsageLimits_def TierFree_def TierPro_def
      TierTeam_def Let_def)

lemma cache_error_reads_store:
  assumes "local_user_id (ctx w) = Some userID"
    and "GetSubscriptionTierFromContext (ctx w) = TierFree"
    and "redisFaults (redis w) = True # fs"
    and "GetUserUsage (db w) userID fresh now = (Inr usage, d1)"
  shows "UsageLimitMiddleware w fresh now =
           checkWeeklyLimit TierFree (Some usage)
             (w\<lparr>db := d1,
                redis := snd (CacheUserUsage ((redis w)\<lparr>redisFaults := fs\<rparr>) userID usage 300)\<rparr>)"
  using assms
  by (simp add: UsageLimitMiddleware_def GetUserIDFromContext_def GetCachedUserUsage_def
      clientGet_def redisStep_def TierFree_def TierPro_def TierTeam_def Let_def)

text \<open>
  Claim C3.  For a free-tier request the usage check ends with a limit decision: on a
  cache miss it reads the principal's usage row from the store, creating one with count 0
  when none is in the last seven days, and evaluates the weekly limit on it.  The code
  does so only on a cache error (\<open>cache_error_reads_store\<close>); on a miss the check panics
  and the store is left untouched.
\<close>

theorem C3_cache_miss_dereferences_nil:
  "usageEntries (redis freeWorld) (KeyUserUsage aliceID) = None \<and>
   redisFaults (redis freeWorld) = [] \<and>
   UsageLimitMiddleware freeWorld fresh now =
     (Panic ''runtime error: invalid memory address or nil pointer dereference'', freeWorld)"
proof -
  have "local_user_id (ctx freeWorld) = Some aliceID"
    "GetSubscriptionTierFromContext (ctx freeWorld) = TierFree"
    "redisFaults (redis freeWorld) = []"
    "usageEntries (redis freeWorld) (KeyUserUsage aliceID) = None"
    by (simp_all add: freeWorld_def freeCtx_def emptyRedis_def GetSubscriptionTierFromContext_def)
  then show ?thesis using cache_miss_panics by blast
qed

text \<open>
  Claim C4.  A free principal whose weekly count is at least 5 is denied with
  \<^verbatim>\<open>usage_limit_exceeded\<close> and code 402, and no session is inserted and no count
  incremented.  The code does so when the cache holds the record
  (\<open>cached_record_at_limit\<close>); with the count in the usage table and no cached entry,
  the state every generation leaves behind, the request panics in the usage check.
\<close>

theorem C4_denial_at_quota_panics:
  "latestUsage (filter (inUsageWindow aliceID noon) (user_usage (db quotaWorld))) = Some usageAtQuota \<and>
   CollisionCount usageAtQuota = 5 \<and>
   usageEntries (redis quotaWorld) (KeyUserUsage aliceID) = None \<and>
   postGenerate mainRateLimitConfig suiteEngine quotaWorld generateCall =
     (Panic ''runtime error: invalid memory address or nil pointer dereference'', quotaWorld) \<and>
   statusOf (served (fst (postGenerate mainRateLimitConfig suiteEngine quotaWorld generateCall)))
     = Some 500"
proof -
  have a: "local_user_id (ctx quotaWorld) = Some aliceID"
    "GetSubscriptionTierFromContext (ctx quotaWorld) = TierFree"
    "redisFaults (redis quotaWorld) = []"
    "usageEntries (redis quotaWorld) (KeyUserUsage aliceID) = None"
    by (simp_all add: quotaWorld_def freeWorld_def freeCtx_def emptyRedis_def
        GetSubscriptionTierFromContext_def)
  have b: "latestUsage (filter (inUsageWindow aliceID noon) (user_usage (db quotaWorld)))
             = Some usageAtQuota"
    by (simp add: quotaWorld_def emptyDB_def inUsageWindow_def usageAtQuota_def day_def second_def)
  have c: "CollisionCount usageAtQuota = 5" by (simp add: usageAtQuota_def)
  show ?thesis
    using b c a(4)
    by (simp add: postGenerate_def cache_miss_panics [OF a] served_def errorHandler_def
        statusOf_def)
qed

section \<open>Rating a collision\<close>

lemma map_unmatched:
  "list_all (\<lambda>row. \<not> P row) rows \<Longrightarrow> map (\<lambda>row. if P row then f row else row) rows = rows"
  by (induction rows) auto

text \<open>
  Claim C10, as stated, fails: a well-formed rating of a session that does not exist is
  answered with 200 and the message of success.
\<close>

theorem C10_unknown_session_reports_success:
  "collision_sessions (db freeWorld) = [] \<and> validateRateRequest fiveStars \<and>
   CollisionHandler_RateCollision freeWorld (Some sessionID0) (Some fiveStars) =
     (Respond 200 (MessageBody ''Rating saved successfully''), freeWorld)"
  by (simp add: CollisionHandler_RateCollision_def PostgresDB_RateCollision_def dbStep_def
      GetUserIDFromContext_def validateRateRequest_def fiveStars_def freeWorld_def freeCtx_def
      emptyDB_def)

text \<open>
  Claim C10, amended.  A well-formed rating of a session that does not exist or belongs to
  another principal changes no session; it is answered with 200 and the message of
  success, or with 500 \<^verbatim>\<open>rating_failed\<close> when the statement fails, never with 404.
\<close>

theorem C10_unmatched_rating_changes_nothing:
  assumes "local_user_id (ctx w) = Some userID"
    and "validateRateRequest req"
    and "list_all (\<lambda>row. \<not> (ses_ID row = sessionID \<and> ses_UserID row = userID))
           (collision_sessions (db w))"
  shows "fst (CollisionHandler_RateCollision w (Some sessionID) (Some req)) =
           (if (case dbFaults (db w) of [] \<Rightarrow> False | f # fs \<Rightarrow> f)
            then internalError ''rating_failed'' ''Failed to save rating''
            else Respond 200 (MessageBody ''Rating saved successfully'')) \<and>
         statusOf (fst (CollisionHandler_RateCollision w (Some sessionID) (Some req))) \<noteq> Some 404 \<and>
         collision_sessions (db (snd (CollisionHandler_RateCollision w (Some sessionID) (Some req))))
           = collision_sessions (db w)"
  using assms map_unmatched [OF assms(3)]
  by (auto simp: CollisionHandler_RateCollision_def PostgresDB_RateCollision_def dbStep_def
      GetUserIDFromContext_def statusOf_def internalError_def split: list.splits)

text \<open>The session exists and belongs to another principal.\<close>

theorem C10_unmatched_rating_changes_nothing_witness:
  "local_user_id (ctx bobSessionWorld) = Some aliceID \<and>
   validateRateRequest fiveStars \<and>
   list_all (\<lambda>row. \<not> (ses_ID row = sessionID0 \<and> ses_UserID row = aliceID))
     (collision_sessions (db bobSessionWorld)) \<and>
   fst (CollisionHandler_RateCollision bobSessionWorld (Some sessionID0) (Some fiveStars)) =
     Respond 200 (MessageBody ''Rating saved successfully'') \<and>
   collision_sessions (db (snd (CollisionHandler_RateCollision bobSessionWorld (Some sessionID0)
                                  (Some fiveStars))))
     = [bobSession]"
proof -
  have u: "local_user_id (ctx bobSessionWorld) = Some aliceID"
    by (simp add: bobSessionWorld_def freeWorld_def freeCtx_def)
  have v: "validateRateRequest fiveStars"
    by (simp add: validateRateRequest_def fiveStars_def)
  have n: "list_all (\<lambda>row. \<not> (ses_ID row = sessionID0 \<and> ses_UserID row = aliceID))
     (collision_sessions (db bobSessionWorld))"
    by (simp add: bobSessionWorld_def bobSession_def bobID_def aliceID_def)
  have f: "dbFaults (db bobSessionWorld) = []" "collision_sessions (db bobSessionWorld) = [bobSession]"
    by (simp_all add: bobSessionWorld_def emptyDB_def)
  from C10_unmatched_rating_changes_nothing [OF u v n] u v n f
  show ?thesis by simp
qed

end
